theory Spec2Isabelle
  imports Main "HOL-Library.AList" "HOL-Library.Word"
begin

section \<open>Strings and paths\<close>

text \<open>
  Go strings are byte sequences; they are modelled as \<^typ>\<open>string\<close>. The two library
  splitters used by the manifest code cut at the byte \<open>/\<close>, which never occurs inside a
  multi-byte UTF-8 sequence, so working on bytes is exact for them.
\<close>

definition is_slash :: "char \<Rightarrow> bool" where
  "is_slash c = (c = CHR ''/'')"

text \<open>\<open>strings.Split(s, "/")\<close>: cut at every separator, empty pieces kept.\<close>

fun strings_Split :: "string \<Rightarrow> string list" where
  "strings_Split [] = [[]]"
| "strings_Split (c # cs) =
     (if is_slash c then [] # strings_Split cs
      else (case strings_Split cs of
              [] \<Rightarrow> [[c]]
            | w # ws \<Rightarrow> (c # w) # ws))"

text \<open>\<open>strings.FieldsFunc(s, f)\<close>: the maximal runs of characters not satisfying \<open>f\<close>.\<close>

fun fields_from :: "(char \<Rightarrow> bool) \<Rightarrow> string \<Rightarrow> string \<Rightarrow> string list" where
  "fields_from f cur [] = (if cur = [] then [] else [cur])"
| "fields_from f cur (c # cs) =
     (if f c then (if cur = [] then fields_from f [] cs else cur # fields_from f [] cs)
      else fields_from f (cur @ [c]) cs)"

definition FieldsFunc :: "string \<Rightarrow> (char \<Rightarrow> bool) \<Rightarrow> string list" where
  "FieldsFunc s f = fields_from f [] s"

text \<open>
  \<open>path.Clean\<close> of the Go library (\<open>filepath.Clean\<close> is the same function on Unix),
  on path elements: empty and \<open>.\<close> elements are dropped, \<open>..\<close> removes the element
  before it, is dropped at the root, and is kept at the front of a relative path.
\<close>

definition clean_step :: "bool \<Rightarrow> string list \<Rightarrow> string \<Rightarrow> string list" where
  "clean_step rooted out e =
     (if e = [] \<or> e = ''.'' then out
      else if e = ''..'' then
        (if out \<noteq> [] \<and> last out \<noteq> ''..'' then butlast out
         else if rooted then out
         else out @ [''..''])
      else out @ [e])"

fun join_slash :: "string list \<Rightarrow> string" where
  "join_slash [] = []"
| "join_slash [e] = e"
| "join_slash (e # es) = e @ ''/'' @ join_slash es"

definition path_Clean :: "string \<Rightarrow> string" where
  "path_Clean p =
     (if p = [] then ''.''
      else (let rooted = is_slash (hd p);
                out = foldl (clean_step rooted) [] (strings_Split p);
                s = (if rooted then ''/'' else []) @ join_slash out
            in if s = [] then ''.'' else s))"

text \<open>\<open>path.Join\<close>: leading empty elements are skipped, the rest joined by \<open>/\<close> and cleaned.\<close>

fun join_buf :: "string \<Rightarrow> string list \<Rightarrow> string" where
  "join_buf buf [] = buf"
| "join_buf buf (e # es) =
     (if buf \<noteq> [] \<or> e \<noteq> []
      then join_buf ((if buf \<noteq> [] then buf @ ''/'' else buf) @ e) es
      else join_buf buf es)"

definition path_Join :: "string list \<Rightarrow> string" where
  "path_Join elem = (if concat elem = [] then [] else path_Clean (join_buf [] elem))"

section \<open>The host filesystem\<close>

text \<open>
  The code reads the host through \<open>os.Lstat\<close>, \<open>os.Readlink\<close> and \<open>os.Stat\<close>. The
  filesystem is a parameter of the model: one function per call. \<open>Lstat\<close> answers
  whether the entry is a symbolic link (\<open>fi.Mode()&os.ModeSymlink != 0\<close>).
\<close>

datatype oserror = NotExist | OtherError string

definition IsNotExist :: "oserror \<Rightarrow> bool" where
  "IsNotExist e = (e = NotExist)"

record hostfs =
  Lstat :: "string \<Rightarrow> oserror + bool"
  Readlink :: "string \<Rightarrow> oserror + string"
  Stat :: "string \<Rightarrow> oserror option"

section \<open>Errors, panics and outcomes\<close>

text \<open>
  The error values the code builds: \<open>FileOverridesDirectory p\<close> is
  \<open>fmt.Errorf("file %s overriding an existing directory", p)\<close>,
  \<open>DirectoryConflictsFile h\<close> is
  \<open>fmt.Errorf("directory %s is conflicting with an existing file", h)\<close>,
  \<open>InvalidSize s\<close> is \<open>errors.New("invalid size " + s)\<close>, \<open>InvalidUnits u\<close> is
  \<open>errors.New("invalid units " + u)\<close> (both with the string as its runes), \<open>ParseIntError\<close> wraps the error of
  \<open>strconv.ParseInt\<close>, and \<open>HostError\<close> carries an error of the operating system.
\<close>

datatype numerror = ErrSyntax | ErrRange

datatype error =
    FileOverridesDirectory string
  | DirectoryConflictsFile string
  | HostError oserror
  | InvalidSize "nat list"
  | InvalidUnits "nat list"
  | ParseIntError numerror

datatype panic = IndexOutOfRange | TypeAssertion | PanicError error

text \<open>
  How a call ends: it returns, it panics, it ends the process (\<open>os.Exit\<close>), or it
  never returns.
\<close>

datatype 'a outcome = Return 'a | Panic panic | Exit nat | Diverge

text \<open>
  What is printed: \<open>ConflictMessage\<close> for \<open>fmt.Println(err)\<close>, \<open>OverwriteWarning\<close>
  (virtual path, old host path, new host path) for the line
  \<open>warning: overwriting existing file ...\<close>, \<open>MissingFileMessage\<close> for the line
  \<open>please check your manifest for the missing file: ...\<close> on standard error, and
  \<open>BadLinkMessage\<close> for \<open>bad link\<close>.
\<close>

datatype message =
    ConflictMessage error
  | OverwriteWarning string string string
  | MissingFileMessage oserror
  | BadLinkMessage

section \<open>lookupFile\<close>

text \<open>
  The \<open>for\<close> loop of \<open>lookupFile\<close>. The loop has no bound, so it is a partial function:
  \<open>None\<close> means that it never returns. \<open>path\<close> is the requested path, \<open>currentPath\<close>
  the candidate of this round; \<open>filepath.Join\<close> is \<open>path_Join\<close> on Unix. Indexing
  \<open>currentPath[0]\<close> on an empty link target panics. A result \<open>Inr (p, e)\<close> is the
  pair the Go function returns.
\<close>

partial_function (option) lookup_loop ::
  "hostfs \<Rightarrow> string \<Rightarrow> string \<Rightarrow> string \<Rightarrow> (panic + string \<times> oserror option) option" where
  "lookup_loop fs targetRoot path currentPath =
     (case Lstat fs (path_Join [targetRoot, currentPath]) of
        Inl err \<Rightarrow>
          (if \<not> IsNotExist err then Some (Inr (path, Some err))
           else Some (Inr (path, Stat fs path)))
      | Inr symlink \<Rightarrow>
          (if \<not> symlink then Some (Inr (path_Join [targetRoot, currentPath], None))
           else (case Readlink fs (path_Join [targetRoot, currentPath]) of
                   Inl err \<Rightarrow> Some (Inr (path, Some err))
                 | Inr target \<Rightarrow>
                     (if target = [] then Some (Inl IndexOutOfRange)
                      else if hd target \<noteq> CHR ''/'' then
                        Some (Inr (path_Join [targetRoot, currentPath],
                                   Stat fs (path_Join [targetRoot, currentPath])))
                      else lookup_loop fs targetRoot path target))))"

declare lookup_loop.simps [code]

definition lookupFile ::
  "hostfs \<Rightarrow> string \<Rightarrow> string \<Rightarrow> (panic + string \<times> oserror option) option" where
  "lookupFile fs targetRoot path =
     (if targetRoot \<noteq> [] then lookup_loop fs targetRoot path path
      else Some (Inr (path, Stat fs path)))"

section \<open>The manifest\<close>

text \<open>
  A Go \<open>map[string]interface{}\<close> is an association list read with \<^const>\<open>map_of\<close> and
  written with \<^const>\<open>AList.update\<close>. The values the code stores in it: a string (a file's
  host path, or a scalar setting), a \<open>link\<close> struct, a nested map (a directory), a
  \<open>[]string\<close>, a \<open>map[string]string\<close> and a rune. Every nested map is created by one
  \<open>make\<close> and stored in one place, so the tree is a value and an in-place update of a
  nested map is written back into its parent.
\<close>

datatype val =
    VString string
  | VLink string
  | VMap "(string \<times> val) list"
  | VStrings "string list"
  | VStringMap "(string \<times> string) list"
  | VRune int

type_synonym gomap = "(string \<times> val) list"

text \<open>\<open>reflect.TypeOf(v).Kind() == reflect.String\<close>\<close>

fun kind_String :: "val \<Rightarrow> bool" where
  "kind_String (VString s) = True"
| "kind_String v = False"

record Manifest =
  root :: gomap
  boot :: gomap
  targetRoot :: string

definition NewManifest :: "string \<Rightarrow> Manifest" where
  "NewManifest t = \<lparr> root = [], boot = [], targetRoot = t \<rparr>"

text \<open>
  \<open>GetChildren\<close> creates the \<open>children\<close> entry when it is missing and returns it; the
  type assertion panics when the entry is not a map. The result is the children map
  and the directory as it is after the call.
\<close>

definition GetChildren :: "gomap \<Rightarrow> panic + gomap \<times> gomap" where
  "GetChildren dir =
     (let dir1 = (if map_of dir ''children'' = None
                  then AList.update ''children'' (VMap []) dir else dir)
      in case map_of dir1 ''children'' of
           Some (VMap ch) \<Rightarrow> Inr (ch, dir1)
         | _ \<Rightarrow> Inl TypeAssertion)"

text \<open>
  The loop over \<open>parts[0 .. len(parts)-2]\<close> of \<open>AddFileTo\<close> and \<open>AddLink\<close>: a missing
  segment is created as an empty map, the type assertion panics on a segment that is not
  a map, and \<open>act\<close> is what the code does at the node the loop ends in.
\<close>

fun walk_create :: "string list \<Rightarrow> (gomap \<Rightarrow> 'r \<times> gomap) \<Rightarrow> gomap \<Rightarrow> (panic + 'r) \<times> gomap" where
  "walk_create [] act node = (case act node of (r, node') \<Rightarrow> (Inr r, node'))"
| "walk_create (p # ps) act node =
     (let node1 = (if map_of node p = None then AList.update p (VMap []) node else node)
      in case map_of node1 p of
           Some (VMap sub) \<Rightarrow>
             (case walk_create ps act sub of
                (r, sub') \<Rightarrow> (r, AList.update p (VMap sub') node1))
         | _ \<Rightarrow> (Inl TypeAssertion, node1))"

text \<open>
  The loop of \<open>FileExists\<close>: \<open>Inr None\<close> is the \<open>return false\<close> on a missing segment,
  \<open>Inr (Some node)\<close> the node the loop ends in.
\<close>

fun walk_find :: "string list \<Rightarrow> gomap \<Rightarrow> panic + gomap option" where
  "walk_find [] node = Inr (Some node)"
| "walk_find (p # ps) node =
     (case map_of node p of
        None \<Rightarrow> Inr None
      | Some (VMap sub) \<Rightarrow> walk_find ps sub
      | Some _ \<Rightarrow> Inl TypeAssertion)"

text \<open>
  The two tests on \<open>pathtest\<close>: \<open>pathtest != nil && Kind() != reflect.String\<close>, and
  the warning printed when \<open>pathtest\<close> is a string other than \<open>hostpath\<close>.
\<close>

fun not_String :: "val option \<Rightarrow> bool" where
  "not_String None = False"
| "not_String (Some v) = (\<not> kind_String v)"

fun overwrite_warning :: "string \<Rightarrow> val option \<Rightarrow> string \<Rightarrow> message list" where
  "overwrite_warning filepath (Some (VString old)) hostpath =
     (if old \<noteq> hostpath then [OverwriteWarning filepath old hostpath] else [])"
| "overwrite_warning filepath pathtest hostpath = []"

text \<open>
  \<open>AddFileTo\<close> from \<open>pathtest := node[parts[len(parts)-1]]\<close> on, at the node \<open>node\<close>
  the loop ended in, with \<open>name\<close> the last segment. A conflict and a missing host file
  end the process with status 1.
\<close>

definition addFile_leaf ::
  "hostfs \<Rightarrow> string \<Rightarrow> string \<Rightarrow> string \<Rightarrow> string \<Rightarrow> gomap \<Rightarrow>
     (error option outcome \<times> message list) \<times> gomap" where
  "addFile_leaf fs troot filepath hostpath name node =
     (if not_String (map_of node name)
      then ((Exit 1, [ConflictMessage (FileOverridesDirectory filepath)]), node)
      else (case lookupFile fs troot hostpath of
              None \<Rightarrow> ((Diverge, overwrite_warning filepath (map_of node name) hostpath), node)
            | Some (Inl p) \<Rightarrow>
                ((Panic p, overwrite_warning filepath (map_of node name) hostpath), node)
            | Some (Inr (found, Some err)) \<Rightarrow>
                (if IsNotExist err
                 then ((Exit 1, overwrite_warning filepath (map_of node name) hostpath
                                  @ [MissingFileMessage err]), node)
                 else ((Return (Some (HostError err)),
                        overwrite_warning filepath (map_of node name) hostpath), node))
            | Some (Inr (found, None)) \<Rightarrow>
                ((Return None, overwrite_warning filepath (map_of node name) hostpath),
                 AList.update name (VString hostpath) node)))"

text \<open>
  \<open>AddFileTo\<close>: the result is how the call ends, the directory \<open>dir\<close> as it is then,
  and what was printed. With no segment the loop is skipped and \<open>parts[len(parts)-1]\<close>
  is out of range.
\<close>

definition AddFileTo ::
  "hostfs \<Rightarrow> string \<Rightarrow> gomap \<Rightarrow> string \<Rightarrow> string \<Rightarrow> error option outcome \<times> gomap \<times> message list" where
  "AddFileTo fs troot dir filepath hostpath =
     (let parts = FieldsFunc filepath is_slash
      in case GetChildren dir of
           Inl p \<Rightarrow> (Panic p, dir, [])
         | Inr (node, dir1) \<Rightarrow>
             (if parts = [] then (Panic IndexOutOfRange, dir1, [])
              else (case walk_create (butlast parts)
                           (addFile_leaf fs troot filepath hostpath (last parts)) node of
                      (Inl p, node') \<Rightarrow>
                        (Panic p, AList.update ''children'' (VMap node') dir1, [])
                    | (Inr (r, out), node') \<Rightarrow>
                        (r, AList.update ''children'' (VMap node') dir1, out))))"

definition AddFile ::
  "hostfs \<Rightarrow> Manifest \<Rightarrow> string \<Rightarrow> string \<Rightarrow> error option outcome \<times> Manifest \<times> message list" where
  "AddFile fs m filepath hostpath =
     (case AddFileTo fs (targetRoot m) (root m) filepath hostpath of
        (r, dir', out) \<Rightarrow> (r, m\<lparr>root := dir'\<rparr>, out))"

text \<open>
  \<open>AddLink\<close> from \<open>pathtest := node[parts[len(parts)-1]]\<close> on. The conflict is
  returned to the caller; a missing host file and an unreadable link end the process.
\<close>

definition addLink_leaf ::
  "hostfs \<Rightarrow> string \<Rightarrow> string \<Rightarrow> string \<Rightarrow> string \<Rightarrow> gomap \<Rightarrow>
     (error option outcome \<times> message list) \<times> gomap" where
  "addLink_leaf fs troot filepath hostpath name node =
     (if not_String (map_of node name)
      then ((Return (Some (FileOverridesDirectory filepath)),
             [ConflictMessage (FileOverridesDirectory filepath)]), node)
      else (case lookupFile fs troot hostpath of
              None \<Rightarrow> ((Diverge, overwrite_warning filepath (map_of node name) hostpath), node)
            | Some (Inl p) \<Rightarrow>
                ((Panic p, overwrite_warning filepath (map_of node name) hostpath), node)
            | Some (Inr (found, Some err)) \<Rightarrow>
                (if IsNotExist err
                 then ((Exit 1, overwrite_warning filepath (map_of node name) hostpath
                                  @ [MissingFileMessage err]), node)
                 else ((Return (Some (HostError err)),
                        overwrite_warning filepath (map_of node name) hostpath), node))
            | Some (Inr (found, None)) \<Rightarrow>
                (case Readlink fs hostpath of
                   Inl err \<Rightarrow>
                     ((Exit 1, overwrite_warning filepath (map_of node name) hostpath
                                 @ [BadLinkMessage]), node)
                 | Inr s \<Rightarrow>
                     ((Return None, overwrite_warning filepath (map_of node name) hostpath),
                      AList.update name (VLink s) node))))"

definition AddLink ::
  "hostfs \<Rightarrow> Manifest \<Rightarrow> string \<Rightarrow> string \<Rightarrow> error option outcome \<times> Manifest \<times> message list" where
  "AddLink fs m filepath hostpath =
     (let parts = FieldsFunc filepath is_slash
      in case GetChildren (root m) of
           Inl p \<Rightarrow> (Panic p, m, [])
         | Inr (node, dir1) \<Rightarrow>
             (if parts = [] then (Panic IndexOutOfRange, m\<lparr>root := dir1\<rparr>, [])
              else (case walk_create (butlast parts)
                           (addLink_leaf fs (targetRoot m) filepath hostpath (last parts)) node of
                      (Inl p, node') \<Rightarrow>
                        (Panic p, m\<lparr>root := AList.update ''children'' (VMap node') dir1\<rparr>, [])
                    | (Inr (r, out), node') \<Rightarrow>
                        (r, m\<lparr>root := AList.update ''children'' (VMap node') dir1\<rparr>, out))))"

text \<open>
  \<open>FileExists\<close>: true only for a string at the last segment. \<open>GetChildren\<close> may
  create the \<open>children\<close> entry of the root, so the manifest is returned too.
\<close>

definition FileExists :: "Manifest \<Rightarrow> string \<Rightarrow> bool outcome \<times> Manifest" where
  "FileExists m filepath =
     (let parts = FieldsFunc filepath is_slash
      in case GetChildren (root m) of
           Inl p \<Rightarrow> (Panic p, m)
         | Inr (node, dir1) \<Rightarrow>
             (case walk_find (butlast parts) node of
                Inl p \<Rightarrow> (Panic p, m\<lparr>root := dir1\<rparr>)
              | Inr None \<Rightarrow> (Return False, m\<lparr>root := dir1\<rparr>)
              | Inr (Some last_node) \<Rightarrow>
                  (if parts = [] then (Panic IndexOutOfRange, m\<lparr>root := dir1\<rparr>)
                   else (case map_of last_node (last parts) of
                           Some (VString h) \<Rightarrow> (Return True, m\<lparr>root := dir1\<rparr>)
                         | _ \<Rightarrow> (Return False, m\<lparr>root := dir1\<rparr>)))))"

text \<open>
  \<open>MkDir\<close>: the sub-directory \<open>dir\<close> of \<open>parent\<close>, created with its own \<open>children\<close>
  entry when missing. The result is the sub-directory and the parent as it is after
  the call. An existing entry is returned through a type assertion.
\<close>

definition MkDir :: "gomap \<Rightarrow> string \<Rightarrow> panic + gomap \<times> gomap" where
  "MkDir parent dir =
     (case GetChildren parent of
        Inl p \<Rightarrow> Inl p
      | Inr (children, parent1) \<Rightarrow>
          (case map_of children dir of
             Some (VMap sub) \<Rightarrow> Inr (sub, parent1)
           | Some v \<Rightarrow> Inl TypeAssertion
           | None \<Rightarrow>
               Inr ([(''children'', VMap [])],
                    AList.update ''children''
                      (VMap (AList.update dir (VMap [(''children'', VMap [])]) children))
                      parent1)))"

text \<open>
  The directory branch of the walk function of \<open>AddDirectory\<close> and
  \<open>AddRelativeDirectory\<close> (\<open>info.IsDir()\<close>): every segment of \<open>vmpath\<close> is created as a
  map when missing; a segment that is a string is a conflict, returned to the caller.
\<close>

fun walk_mkdir :: "string \<Rightarrow> string list \<Rightarrow> gomap \<Rightarrow> (error option outcome \<times> message list) \<times> gomap" where
  "walk_mkdir hostpath [] node = ((Return None, []), node)"
| "walk_mkdir hostpath (p # ps) node =
     (let node1 = (if map_of node p = None then AList.update p (VMap []) node else node)
      in case map_of node1 p of
           Some (VString h) \<Rightarrow>
             ((Return (Some (DirectoryConflictsFile hostpath)),
               [ConflictMessage (DirectoryConflictsFile hostpath)]), node1)
         | Some (VMap sub) \<Rightarrow>
             (case walk_mkdir hostpath ps sub of
                (r, sub') \<Rightarrow> (r, AList.update p (VMap sub') node1))
         | _ \<Rightarrow> ((Panic TypeAssertion, []), node1))"

definition addDirectoryEntry ::
  "Manifest \<Rightarrow> string \<Rightarrow> string \<Rightarrow> error option outcome \<times> Manifest \<times> message list" where
  "addDirectoryEntry m vmpath hostpath =
     (case GetChildren (root m) of
        Inl p \<Rightarrow> (Panic p, m, [])
      | Inr (node, dir1) \<Rightarrow>
          (case walk_mkdir hostpath (FieldsFunc vmpath is_slash) node of
             ((r, out), node') \<Rightarrow>
               (r, m\<lparr>root := AList.update ''children'' (VMap node') dir1\<rparr>, out)))"



text \<open>
  \<open>AddArgument\<close> and \<open>AddNoTrace\<close>: \<open>make([]string, 1)\<close> is a slice holding one
  empty string; the type assertion panics when the entry is not a \<open>[]string\<close>.
\<close>

definition AddArgument :: "Manifest \<Rightarrow> string \<Rightarrow> unit outcome \<times> Manifest" where
  "AddArgument m arg =
     (let root1 = (if map_of (root m) ''arguments'' = None
                   then AList.update ''arguments'' (VStrings [[]]) (root m) else root m)
      in case map_of root1 ''arguments'' of
           Some (VStrings args) \<Rightarrow>
             (Return (), m\<lparr>root := AList.update ''arguments'' (VStrings (args @ [arg])) root1\<rparr>)
         | _ \<Rightarrow> (Panic TypeAssertion, m\<lparr>root := root1\<rparr>))"

definition AddNoTrace :: "Manifest \<Rightarrow> string \<Rightarrow> unit outcome \<times> Manifest" where
  "AddNoTrace m name =
     (let root1 = (if map_of (root m) ''notrace'' = None
                   then AList.update ''notrace'' (VStrings [[]]) (root m) else root m)
      in case map_of root1 ''notrace'' of
           Some (VStrings notrace) \<Rightarrow>
             (Return (), m\<lparr>root := AList.update ''notrace'' (VStrings (notrace @ [name])) root1\<rparr>)
         | _ \<Rightarrow> (Panic TypeAssertion, m\<lparr>root := root1\<rparr>))"

text \<open>A sequence of calls, one after the other, stopping at a call that does not return.\<close>

fun AddArguments :: "Manifest \<Rightarrow> string list \<Rightarrow> unit outcome \<times> Manifest" where
  "AddArguments m [] = (Return (), m)"
| "AddArguments m (v # vs) =
     (case AddArgument m v of
        (Return u, m') \<Rightarrow> AddArguments m' vs
      | (r, m') \<Rightarrow> (r, m'))"

fun AddNoTraces :: "Manifest \<Rightarrow> string list \<Rightarrow> unit outcome \<times> Manifest" where
  "AddNoTraces m [] = (Return (), m)"
| "AddNoTraces m (v # vs) =
     (case AddNoTrace m v of
        (Return u, m') \<Rightarrow> AddNoTraces m' vs
      | (r, m') \<Rightarrow> (r, m'))"

section \<open>The mkfs command\<close>

text \<open>
  \<open>SetFileSystemSize\<close> reads its argument rune by rune (\<open>strings.IndexFunc\<close>,
  \<open>strings.ToLower\<close>), so there a string is the list of its runes, each a Unicode code
  point; an index counts runes, and cutting the string at the index of a rune is the cut
  the code makes at the byte index of that rune. \<open>runes\<close> reads an ASCII literal.
\<close>

type_synonym rune = nat

definition runes :: "string \<Rightarrow> rune list" where
  "runes s = map of_char s"

text \<open>
  The tables \<open>unicode.IsNumber\<close> and \<open>unicode.ToLower\<close> of the Go library are
  parameters of the model. \<open>ascii_tables\<close> is what Unicode fixes for the code points
  below 128: the numbers are the digits \<open>0\<close> to \<open>9\<close>, and lowering changes the
  letters \<open>A\<close> to \<open>Z\<close> only.
\<close>

record unicode =
  IsNumber :: "rune \<Rightarrow> bool"
  ToLower :: "rune \<Rightarrow> rune"

definition ascii_tables :: "unicode \<Rightarrow> bool" where
  "ascii_tables U =
     (\<forall>r. r < 128 \<longrightarrow>
        (IsNumber U r \<longleftrightarrow> 48 \<le> r \<and> r \<le> 57) \<and>
        ToLower U r = (if 65 \<le> r \<and> r \<le> 90 then r + 32 else r))"

text \<open>
  A table that is as Unicode is below 128 and has no number and no capital letter
  above; the examples use ASCII strings only.
\<close>

definition ascii_only :: unicode where
  "ascii_only =
     \<lparr> IsNumber = (\<lambda>r. 48 \<le> r \<and> r \<le> 57),
       ToLower = (\<lambda>r. if 65 \<le> r \<and> r \<le> 90 then r + 32 else r) \<rparr>"

text \<open>\<open>strings.ToLower\<close>: every rune lowered.\<close>

definition strings_ToLower :: "unicode \<Rightarrow> rune list \<Rightarrow> rune list" where
  "strings_ToLower U s = map (ToLower U) s"

text \<open>\<open>strings.IndexFunc\<close>: the index of the first rune satisfying \<open>f\<close>, or \<open>-1\<close>.\<close>

fun index_from :: "(rune \<Rightarrow> bool) \<Rightarrow> int \<Rightarrow> rune list \<Rightarrow> int" where
  "index_from f i [] = - 1"
| "index_from f i (c # cs) = (if f c then i else index_from f (i + 1) cs)"

definition IndexFunc :: "rune list \<Rightarrow> (rune \<Rightarrow> bool) \<Rightarrow> int" where
  "IndexFunc s f = index_from f 0 s"

text \<open>
  \<open>strconv.ParseInt(s, 10, 64)\<close>: an optional sign and the decimal digits \<open>0\<close> to
  \<open>9\<close> (the code points 48 to 57; every other rune is a syntax error). A value that
  does not fit an \<open>int64\<close> is a range error, returned with the nearest bound.
\<close>

definition is_digit :: "rune \<Rightarrow> bool" where
  "is_digit c = (48 \<le> c \<and> c \<le> 57)"

fun parse_digits :: "nat \<Rightarrow> rune list \<Rightarrow> nat option" where
  "parse_digits n [] = Some n"
| "parse_digits n (c # cs) =
     (if is_digit c then parse_digits (n * 10 + (c - 48)) cs else None)"

definition ParseInt :: "rune list \<Rightarrow> 64 word \<times> numerror option" where
  "ParseInt s =
     (if s = [] then (0, Some ErrSyntax)
      else (let neg = (hd s = 45);
                body = (if hd s = 43 \<or> hd s = 45 then tl s else s)
            in if body = [] then (0, Some ErrSyntax)
               else (case parse_digits 0 body of
                       None \<Rightarrow> (0, Some ErrSyntax)
                     | Some un \<Rightarrow>
                         (if \<not> neg \<and> 2 ^ 63 \<le> un then (2 ^ 63 - 1, Some ErrRange)
                          else if neg \<and> 2 ^ 63 < un then (- (2 ^ 63), Some ErrRange)
                          else (if neg then - of_nat un else of_nat un, None)))))"

record MkfsCommand =
  bootPath :: string
  label :: string
  manifest :: "Manifest option"
  fs_size :: "64 word"
  outPath :: string

text \<open>
  \<open>SetFileSystemSize\<close>, from \<open>strconv.ParseInt\<close> on: \<open>m.size\<close> is assigned whatever
  \<open>ParseInt\<close> returns, also with an error, and the product wraps around in \<open>int64\<close>.
\<close>

definition parse_and_scale ::
  "MkfsCommand \<Rightarrow> rune list \<Rightarrow> 64 word \<Rightarrow> error option \<times> MkfsCommand" where
  "parse_and_scale m digits mul =
     (case ParseInt digits of
        (v, Some err) \<Rightarrow> (Some (ParseIntError err), m\<lparr>fs_size := v\<rparr>)
      | (v, None) \<Rightarrow> (None, m\<lparr>fs_size := v * mul\<rparr>))"

text \<open>
  \<open>SetFileSystemSize\<close>. With no rune that is not a number, \<open>unitsIndex\<close> becomes
  \<open>len(size)\<close> and the whole string is parsed.
\<close>

definition SetFileSystemSize ::
  "unicode \<Rightarrow> MkfsCommand \<Rightarrow> rune list \<Rightarrow> error option \<times> MkfsCommand" where
  "SetFileSystemSize U m sz =
     (let unitsIndex = IndexFunc sz (\<lambda>c. \<not> IsNumber U c)
      in if unitsIndex < 0 then parse_and_scale m sz 1
         else if unitsIndex = 0 then (Some (InvalidSize sz), m)
         else (let units = strings_ToLower U (drop (nat unitsIndex) sz)
               in if units = runes ''k'' then parse_and_scale m (take (nat unitsIndex) sz) 1024
                  else if units = runes ''m'' then
                    parse_and_scale m (take (nat unitsIndex) sz) (1024 * 1024)
                  else if units = runes ''g'' then
                    parse_and_scale m (take (nat unitsIndex) sz) (1024 * 1024 * 1024)
                  else (Some (InvalidUnits units), m)))"

text \<open>\<open>NewMkfsCommand\<close>: the command for a manifest, with nothing set.\<close>

definition NewMkfsCommand :: "Manifest \<Rightarrow> MkfsCommand" where
  "NewMkfsCommand m =
     \<lparr> bootPath = [], label = [], manifest = Some m, fs_size = 0, outPath = [] \<rparr>"

text \<open>The number a string of decimal digits denotes.\<close>

definition decimal_value :: "rune list \<Rightarrow> nat" where
  "decimal_value ds = foldl (\<lambda>n c. n * 10 + (c - 48)) 0 ds"

section \<open>Observing the tree\<close>

text \<open>
  The node at a virtual path, read as \<open>FileExists\<close> reads it: through the \<open>children\<close>
  entry of the root and then one nested map per segment. It creates nothing and is
  \<open>None\<close> where the path has no segment, is missing, or runs through a node that
  is not a map.
\<close>

definition node_at :: "Manifest \<Rightarrow> string \<Rightarrow> val option" where
  "node_at m filepath =
     (let parts = FieldsFunc filepath is_slash
      in if parts = [] then None
         else (case map_of (root m) ''children'' of
                 Some (VMap ch) \<Rightarrow>
                   (case walk_find (butlast parts) ch of
                      Inr (Some leaf) \<Rightarrow> map_of leaf (last parts)
                    | _ \<Rightarrow> None)
               | _ \<Rightarrow> None))"

text \<open>The \<open>children\<close> entry of a directory is missing or a map: \<open>GetChildren\<close> does not panic.\<close>

definition children_ok :: "gomap \<Rightarrow> bool" where
  "children_ok dir =
     (case map_of dir ''children'' of
        None \<Rightarrow> True
      | Some (VMap ch) \<Rightarrow> True
      | Some _ \<Rightarrow> False)"


text \<open>
  The walk of \<open>FileExists\<close> along a path meets no failing type assertion: the
  \<open>children\<close> entry of the root is missing or a map, and no segment before the last
  is present without being a map.
\<close>

definition walk_in_maps :: "Manifest \<Rightarrow> string \<Rightarrow> bool" where
  "walk_in_maps m filepath =
     (case map_of (root m) ''children'' of
        None \<Rightarrow> True
      | Some (VMap ch) \<Rightarrow>
          (case walk_find (butlast (FieldsFunc filepath is_slash)) ch of
             Inl p \<Rightarrow> False
           | Inr r \<Rightarrow> True)
      | Some _ \<Rightarrow> False)"

section \<open>Example filesystems\<close>

text \<open>
  A host with the files \<open>/bin/ls\<close>, \<open>/h1\<close>, \<open>/h2\<close> and the link \<open>/lib/a\<close> to \<open>b\<close>,
  and a staged root \<open>/t\<close> holding the file \<open>bin/ls\<close>, the relative link \<open>lib/a\<close> and
  the absolute link \<open>lib/c\<close> to \<open>/bin/ls\<close>.
\<close>

definition example_fs :: hostfs where
  "example_fs =
     \<lparr> Lstat = (\<lambda>p. if p \<in> set [''/t/lib/a'', ''/t/lib/c'', ''/lib/a''] then Inr True
                     else if p \<in> set [''/t/bin/ls'', ''/bin/ls'', ''/h1'', ''/h2''] then Inr False
                     else Inl NotExist),
       Readlink = (\<lambda>p. if p \<in> set [''/t/lib/a'', ''/lib/a''] then Inr ''b''
                        else if p = ''/t/lib/c'' then Inr ''/bin/ls''
                        else Inl (OtherError ''invalid argument'')),
       Stat = (\<lambda>p. if p \<in> set [''/t/bin/ls'', ''/t/lib/a'', ''/t/lib/c'', ''/bin/ls'',
                                    ''/h1'', ''/h2'', ''/lib/a'']
                    then None else Some NotExist) \<rparr>"

text \<open>
  A staged root \<open>/t\<close> whose only entry is the link \<open>loop\<close> to \<open>/loop\<close>: resolved
  against the staged root, the link points at itself.
\<close>

definition cyclic_overlay :: hostfs where
  "cyclic_overlay =
     \<lparr> Lstat = (\<lambda>p. if p = ''/t/loop'' then Inr True else Inl NotExist),
       Readlink = (\<lambda>p. if p = ''/t/loop'' then Inr ''/loop''
                        else Inl (OtherError ''invalid argument'')),
       Stat = (\<lambda>p. Some NotExist) \<rparr>"

text \<open>The manifest with the one file \<open>/d/f\<close>, taken from the host path \<open>/h1\<close>.\<close>

definition example_manifest :: Manifest where
  "example_manifest =
     \<lparr> root = [(''children'', VMap [(''d'', VMap [(''f'', VString ''/h1'')])])],
       boot = [], targetRoot = [] \<rparr>"

text \<open>The manifest with the one link \<open>/lib/a\<close>, read from the host link \<open>/lib/a\<close>.\<close>

definition example_link_manifest :: Manifest where
  "example_link_manifest =
     \<lparr> root = [(''children'', VMap [(''lib'', VMap [(''a'', VLink ''b'')])])],
       boot = [], targetRoot = [] \<rparr>"

section \<open>Path resolution\<close>

lemma path_Join_root_abs:
  "path_Join [''/t'', ''/loop''] = ''/t/loop''"
  "path_Join [''/t'', ''/bin/ls''] = ''/t/bin/ls''"
  "path_Join [''/t'', ''/lib/a''] = ''/t/lib/a''"
  "path_Join [''/t'', ''/lib/c''] = ''/t/lib/c''"
  by (simp_all add: path_Join_def path_Clean_def clean_step_def is_slash_def)

lemma example_fs_facts:
  "Lstat example_fs ''/t/bin/ls'' = Inr False"
  "Lstat example_fs ''/t/lib/a'' = Inr True"
  "Lstat example_fs ''/t/lib/c'' = Inr True"
  "Readlink example_fs ''/t/lib/a'' = Inr ''b''"
  "Readlink example_fs ''/t/lib/c'' = Inr ''/bin/ls''"
  "Readlink example_fs ''/lib/a'' = Inr ''b''"
  "Stat example_fs ''/t/lib/a'' = None"
  "Stat example_fs ''/bin/ls'' = None"
  "Stat example_fs ''/h1'' = None"
  "Stat example_fs ''/h2'' = None"
  "Stat example_fs ''/lib/a'' = None"
  "Stat example_fs ''/nowhere'' = Some NotExist"
  by (simp_all add: example_fs_def)

text \<open>
  C3. With a staged root \<open>T\<close>: a path whose entry \<open>T/P\<close> is not a link resolves to
  \<open>T/P\<close>; when \<open>T/P\<close> is a link with a relative target the loop stops and \<open>T/P\<close>
  itself is returned (with the result of \<open>os.Stat\<close> on it); when it is a link with an
  absolute target \<open>Q\<close> the loop goes on with the candidate \<open>Q\<close>, so that \<open>T/Q\<close> is
  probed next. With no staged root the path is checked on the host, and a missing path
  is the host's not-exist error.
\<close>

theorem lookupFile_resolution:
  "(T \<noteq> [] \<and> Lstat fs (path_Join [T, P]) = Inr False \<longrightarrow>
      lookupFile fs T P = Some (Inr (path_Join [T, P], None)))
   \<and> (T \<noteq> [] \<and> Lstat fs (path_Join [T, P]) = Inr True \<and>
      Readlink fs (path_Join [T, P]) = Inr Q \<and> Q \<noteq> [] \<and> hd Q \<noteq> CHR ''/'' \<longrightarrow>
      lookupFile fs T P = Some (Inr (path_Join [T, P], Stat fs (path_Join [T, P]))))
   \<and> (T \<noteq> [] \<and> Lstat fs (path_Join [T, P]) = Inr True \<and>
      Readlink fs (path_Join [T, P]) = Inr Q \<and> Q \<noteq> [] \<and> hd Q = CHR ''/'' \<longrightarrow>
      lookupFile fs T P = lookup_loop fs T P Q \<and>
      (Lstat fs (path_Join [T, Q]) = Inr False \<longrightarrow>
         lookupFile fs T P = Some (Inr (path_Join [T, Q], None))))
   \<and> lookupFile fs [] P = Some (Inr (P, Stat fs P))
   \<and> (Stat fs P = Some NotExist \<longrightarrow> lookupFile fs [] P = Some (Inr (P, Some NotExist)))"
proof (intro conjI impI)
  assume "T \<noteq> [] \<and> Lstat fs (path_Join [T, P]) = Inr False"
  then show "lookupFile fs T P = Some (Inr (path_Join [T, P], None))"
    by (simp add: lookupFile_def lookup_loop.simps [of fs T P P])
next
  assume "T \<noteq> [] \<and> Lstat fs (path_Join [T, P]) = Inr True \<and>
      Readlink fs (path_Join [T, P]) = Inr Q \<and> Q \<noteq> [] \<and> hd Q \<noteq> CHR ''/''"
  then show "lookupFile fs T P = Some (Inr (path_Join [T, P], Stat fs (path_Join [T, P])))"
    by (simp add: lookupFile_def lookup_loop.simps [of fs T P P])
next
  assume a: "T \<noteq> [] \<and> Lstat fs (path_Join [T, P]) = Inr True \<and>
      Readlink fs (path_Join [T, P]) = Inr Q \<and> Q \<noteq> [] \<and> hd Q = CHR ''/''"
  then show eq: "lookupFile fs T P = lookup_loop fs T P Q"
    by (simp add: lookupFile_def lookup_loop.simps [of fs T P P])
  assume "Lstat fs (path_Join [T, Q]) = Inr False"
  then show "lookupFile fs T P = Some (Inr (path_Join [T, Q], None))"
    by (simp add: eq lookup_loop.simps [of fs T P Q])
next
  show "lookupFile fs [] P = Some (Inr (P, Stat fs P))"
    by (simp add: lookupFile_def)
next
  assume "Stat fs P = Some NotExist"
  then show "lookupFile fs [] P = Some (Inr (P, Some NotExist))"
    by (simp add: lookupFile_def)
qed

theorem lookupFile_resolution_witness:
  "lookupFile example_fs ''/t'' ''/bin/ls'' = Some (Inr (''/t/bin/ls'', None))
   \<and> lookupFile example_fs ''/t'' ''/lib/a'' = Some (Inr (''/t/lib/a'', None))
   \<and> lookupFile example_fs ''/t'' ''/lib/c'' = lookup_loop example_fs ''/t'' ''/lib/c'' ''/bin/ls''
   \<and> lookupFile example_fs ''/t'' ''/lib/c'' = Some (Inr (''/t/bin/ls'', None))
   \<and> lookupFile example_fs [] ''/nowhere'' = Some (Inr (''/nowhere'', Some NotExist))"
proof -
  have plain: "lookupFile example_fs ''/t'' ''/bin/ls'' = Some (Inr (''/t/bin/ls'', None))"
    using lookupFile_resolution [of "''/t''" example_fs "''/bin/ls''" "''b''"]
    by (simp add: path_Join_root_abs example_fs_facts)
  have rel: "lookupFile example_fs ''/t'' ''/lib/a'' = Some (Inr (''/t/lib/a'', None))"
    using lookupFile_resolution [of "''/t''" example_fs "''/lib/a''" "''b''"]
    by (simp add: path_Join_root_abs example_fs_facts)
  have abs: "lookupFile example_fs ''/t'' ''/lib/c'' = lookup_loop example_fs ''/t'' ''/lib/c'' ''/bin/ls''
      \<and> lookupFile example_fs ''/t'' ''/lib/c'' = Some (Inr (''/t/bin/ls'', None))"
    using lookupFile_resolution [of "''/t''" example_fs "''/lib/c''" "''/bin/ls''"]
    by (auto simp: path_Join_root_abs example_fs_facts)
  have host: "lookupFile example_fs [] ''/nowhere'' = Some (Inr (''/nowhere'', Some NotExist))"
    using lookupFile_resolution [of "''/t''" example_fs "''/nowhere''" "''b''"]
    by (simp add: example_fs_facts)
  from plain rel abs host show ?thesis by blast
qed

lemma cyclic_loop_never_returns:
  assumes "lookup_loop fs T P cur = Some r"
  shows "\<not> (fs = cyclic_overlay \<and> T = ''/t'' \<and> cur = ''/loop'')"
proof (rule lookup_loop.raw_induct
    [where P = "\<lambda>fs T P cur r. \<not> (fs = cyclic_overlay \<and> T = ''/t'' \<and> cur = ''/loop'')",
     OF _ assms], goal_cases)
  case (1 f fs' T' P' cur' r')
  show ?case
  proof
    assume a: "fs' = cyclic_overlay \<and> T' = ''/t'' \<and> cur' = ''/loop''"
    with 1(2) have "f cyclic_overlay ''/t'' P' ''/loop'' = Some r'"
      by (simp add: path_Join_root_abs cyclic_overlay_def)
    with 1(1) show False by blast
  qed
qed

text \<open>
  C4. The loop of \<open>lookupFile\<close> has no bound: on the staged root \<open>/t\<close> whose link
  \<open>loop\<close> points to \<open>/loop\<close>, resolving \<open>/loop\<close> never returns.
\<close>

theorem lookupFile_cycle_diverges:
  "lookupFile cyclic_overlay ''/t'' ''/loop'' = None"
proof (cases "lookupFile cyclic_overlay ''/t'' ''/loop''")
  case None
  then show ?thesis .
next
  case (Some r)
  then have "lookup_loop cyclic_overlay ''/t'' ''/loop'' ''/loop'' = Some r"
    by (simp add: lookupFile_def)
  from cyclic_loop_never_returns [OF this] show ?thesis by simp
qed

section \<open>Walking and inserting\<close>

lemma update_same: "map_of al k = Some v \<Longrightarrow> AList.update k v al = al"
  by (induction al) auto

lemma map_of_update_same: "map_of (AList.update k v al) k = Some v"
  by (simp add: update_conv')

lemma walk_create_found:
  "walk_create ps act node = (Inr r, node') \<Longrightarrow>
     \<exists>leaf leaf'. act leaf = (r, leaf') \<and> walk_find ps node' = Inr (Some leaf')"
proof (induction ps arbitrary: node node')
  case Nil
  then show ?case by (auto split: prod.splits)
next
  case (Cons p ps)
  let ?node1 = "if map_of node p = None then AList.update p (VMap []) node else node"
  from Cons.prems obtain sub sub' where
    sub: "map_of ?node1 p = Some (VMap sub)" and
    rec: "walk_create ps act sub = (Inr r, sub')" and
    node': "node' = AList.update p (VMap sub') ?node1"
    by (auto simp: Let_def split: option.splits val.splits prod.splits if_splits)
  from Cons.IH [OF rec] obtain leaf leaf' where
    "act leaf = (r, leaf')" "walk_find ps sub' = Inr (Some leaf')" by blast
  then show ?case
    by (auto simp: node' map_of_update_same)
qed

lemma walk_create_existing:
  "walk_find ps node = Inr (Some leaf) \<Longrightarrow> act leaf = (r, leaf') \<Longrightarrow>
     \<exists>node'. walk_create ps act node = (Inr r, node') \<and>
             walk_find ps node' = Inr (Some leaf') \<and> (leaf' = leaf \<longrightarrow> node' = node)"
proof (induction ps arbitrary: node)
  case Nil
  then show ?case by auto
next
  case (Cons p ps)
  from Cons.prems(1) obtain sub where
    sub: "map_of node p = Some (VMap sub)" and
    f: "walk_find ps sub = Inr (Some leaf)"
    by (auto split: option.splits val.splits)
  from Cons.IH [OF f Cons.prems(2)] obtain sub' where
    c: "walk_create ps act sub = (Inr r, sub')" and
    f': "walk_find ps sub' = Inr (Some leaf')" and
    same: "leaf' = leaf \<longrightarrow> sub' = sub"
    by blast
  show ?case
    using sub c f' same by (auto simp: map_of_update_same update_same)
qed


lemma GetChildren_existing:
  "map_of dir ''children'' = Some (VMap ch) \<Longrightarrow> GetChildren dir = Inr (ch, dir)"
  by (simp add: GetChildren_def)

lemma GetChildren_Inr:
  "GetChildren dir = Inr (ch, dir1) \<Longrightarrow> map_of dir1 ''children'' = Some (VMap ch)"
  by (auto simp: GetChildren_def Let_def map_of_update_same split: if_splits option.splits val.splits)


lemma addFile_leaf_success:
  "addFile_leaf fs t fp h name leaf = ((Return None, out), leaf') \<Longrightarrow>
     (\<exists>found. lookupFile fs t h = Some (Inr (found, None))) \<and>
     leaf' = AList.update name (VString h) leaf \<and>
     \<not> not_String (map_of leaf name) \<and>
     out = overwrite_warning fp (map_of leaf name) h"
  by (auto simp: addFile_leaf_def split: if_splits option.splits sum.splits prod.splits)

lemma addFile_leaf_resolved:
  "lookupFile fs t h = Some (Inr (found, None)) \<Longrightarrow> \<not> not_String (map_of leaf name) \<Longrightarrow>
     addFile_leaf fs t fp h name leaf =
       ((Return None, overwrite_warning fp (map_of leaf name) h),
        AList.update name (VString h) leaf)"
  by (simp add: addFile_leaf_def)

lemma addLink_leaf_success:
  "addLink_leaf fs t fp h name leaf = ((Return None, out), leaf') \<Longrightarrow>
     \<exists>s. leaf' = AList.update name (VLink s) leaf"
  by (auto simp: addLink_leaf_def split: if_splits option.splits sum.splits prod.splits)

lemma AddFile_existing:
  assumes ch: "map_of (root m) ''children'' = Some (VMap ch)"
    and parts: "FieldsFunc P is_slash \<noteq> []"
    and found: "walk_find (butlast (FieldsFunc P is_slash)) ch = Inr (Some leaf)"
    and act: "addFile_leaf fs (targetRoot m) P H (last (FieldsFunc P is_slash)) leaf
                = ((r, out), leaf')"
  shows "\<exists>ch'. AddFile fs m P H =
                  (r, m\<lparr>root := AList.update ''children'' (VMap ch') (root m)\<rparr>, out) \<and>
               walk_find (butlast (FieldsFunc P is_slash)) ch' = Inr (Some leaf') \<and>
               (leaf' = leaf \<longrightarrow> ch' = ch)"
proof -
  from walk_create_existing
    [where act = "addFile_leaf fs (targetRoot m) P H (last (FieldsFunc P is_slash))", OF found act]
  obtain ch' where
    c: "walk_create (butlast (FieldsFunc P is_slash))
          (addFile_leaf fs (targetRoot m) P H (last (FieldsFunc P is_slash))) ch
        = (Inr (r, out), ch')" and
    f: "walk_find (butlast (FieldsFunc P is_slash)) ch' = Inr (Some leaf')" and
    same: "leaf' = leaf \<longrightarrow> ch' = ch"
    by blast
  have "AddFile fs m P H = (r, m\<lparr>root := AList.update ''children'' (VMap ch') (root m)\<rparr>, out)"
    using parts c by (simp add: AddFile_def AddFileTo_def GetChildren_existing [OF ch])
  with f same show ?thesis by blast
qed

lemma AddLink_existing:
  assumes ch: "map_of (root m) ''children'' = Some (VMap ch)"
    and parts: "FieldsFunc P is_slash \<noteq> []"
    and found: "walk_find (butlast (FieldsFunc P is_slash)) ch = Inr (Some leaf)"
    and act: "addLink_leaf fs (targetRoot m) P H (last (FieldsFunc P is_slash)) leaf
                = ((r, out), leaf')"
  shows "\<exists>ch'. AddLink fs m P H =
                  (r, m\<lparr>root := AList.update ''children'' (VMap ch') (root m)\<rparr>, out) \<and>
               walk_find (butlast (FieldsFunc P is_slash)) ch' = Inr (Some leaf') \<and>
               (leaf' = leaf \<longrightarrow> ch' = ch)"
proof -
  from walk_create_existing
    [where act = "addLink_leaf fs (targetRoot m) P H (last (FieldsFunc P is_slash))", OF found act]
  obtain ch' where
    c: "walk_create (butlast (FieldsFunc P is_slash))
          (addLink_leaf fs (targetRoot m) P H (last (FieldsFunc P is_slash))) ch
        = (Inr (r, out), ch')" and
    f: "walk_find (butlast (FieldsFunc P is_slash)) ch' = Inr (Some leaf')" and
    same: "leaf' = leaf \<longrightarrow> ch' = ch"
    by blast
  have "AddLink fs m P H = (r, m\<lparr>root := AList.update ''children'' (VMap ch') (root m)\<rparr>, out)"
    using parts c by (simp add: AddLink_def GetChildren_existing [OF ch])
  with f same show ?thesis by blast
qed

lemma AddFile_returned:
  assumes "AddFile fs m P H = (Return x, m', out)"
  shows "\<exists>ch' leaf leaf'. FieldsFunc P is_slash \<noteq> [] \<and>
           map_of (root m') ''children'' = Some (VMap ch') \<and>
           walk_find (butlast (FieldsFunc P is_slash)) ch' = Inr (Some leaf') \<and>
           addFile_leaf fs (targetRoot m) P H (last (FieldsFunc P is_slash)) leaf
             = ((Return x, out), leaf') \<and>
           targetRoot m' = targetRoot m"
proof -
  from assms obtain node dir1 ch' where
    parts: "FieldsFunc P is_slash \<noteq> []" and
    c: "walk_create (butlast (FieldsFunc P is_slash))
          (addFile_leaf fs (targetRoot m) P H (last (FieldsFunc P is_slash))) node
        = (Inr (Return x, out), ch')" and
    m': "m' = m\<lparr>root := AList.update ''children'' (VMap ch') dir1\<rparr>"
    by (auto simp: AddFile_def AddFileTo_def Let_def
             split: sum.splits prod.splits if_splits)
  from walk_create_found [OF c] obtain leaf leaf' where
    "addFile_leaf fs (targetRoot m) P H (last (FieldsFunc P is_slash)) leaf
       = ((Return x, out), leaf')"
    "walk_find (butlast (FieldsFunc P is_slash)) ch' = Inr (Some leaf')"
    by blast
  with parts m' show ?thesis
    by (auto simp: map_of_update_same)
qed

lemma AddLink_returned:
  assumes "AddLink fs m P H = (Return x, m', out)"
  shows "\<exists>ch' leaf leaf'. FieldsFunc P is_slash \<noteq> [] \<and>
           map_of (root m') ''children'' = Some (VMap ch') \<and>
           walk_find (butlast (FieldsFunc P is_slash)) ch' = Inr (Some leaf') \<and>
           addLink_leaf fs (targetRoot m) P H (last (FieldsFunc P is_slash)) leaf
             = ((Return x, out), leaf') \<and>
           targetRoot m' = targetRoot m"
proof -
  from assms obtain node dir1 ch' where
    parts: "FieldsFunc P is_slash \<noteq> []" and
    c: "walk_create (butlast (FieldsFunc P is_slash))
          (addLink_leaf fs (targetRoot m) P H (last (FieldsFunc P is_slash))) node
        = (Inr (Return x, out), ch')" and
    m': "m' = m\<lparr>root := AList.update ''children'' (VMap ch') dir1\<rparr>"
    by (auto simp: AddLink_def Let_def
             split: sum.splits prod.splits if_splits)
  from walk_create_found [OF c] obtain leaf leaf' where
    "addLink_leaf fs (targetRoot m) P H (last (FieldsFunc P is_slash)) leaf
       = ((Return x, out), leaf')"
    "walk_find (butlast (FieldsFunc P is_slash)) ch' = Inr (Some leaf')"
    by blast
  with parts m' show ?thesis
    by (auto simp: map_of_update_same)
qed

lemma FileExists_existing:
  assumes ch: "map_of (root m) ''children'' = Some (VMap ch)"
    and parts: "FieldsFunc P is_slash \<noteq> []"
    and found: "walk_find (butlast (FieldsFunc P is_slash)) ch = Inr (Some leaf)"
  shows "FileExists m P =
           (Return (case map_of leaf (last (FieldsFunc P is_slash)) of
                      Some (VString h) \<Rightarrow> True | _ \<Rightarrow> False), m)"
  using parts found
  by (simp add: FileExists_def GetChildren_existing [OF ch] split: option.splits val.splits)

lemma node_at_existing:
  assumes "node_at m P = Some v"
  shows "\<exists>ch leaf. map_of (root m) ''children'' = Some (VMap ch) \<and>
           FieldsFunc P is_slash \<noteq> [] \<and>
           walk_find (butlast (FieldsFunc P is_slash)) ch = Inr (Some leaf) \<and>
           map_of leaf (last (FieldsFunc P is_slash)) = Some v"
  using assms
  by (auto simp: node_at_def Let_def split: if_splits option.splits val.splits sum.splits)

lemma node_at_intro:
  assumes "map_of (root m) ''children'' = Some (VMap ch)"
    and "FieldsFunc P is_slash \<noteq> []"
    and "walk_find (butlast (FieldsFunc P is_slash)) ch = Inr (Some leaf)"
  shows "node_at m P = map_of leaf (last (FieldsFunc P is_slash))"
  using assms by (simp add: node_at_def)

lemma example_evals:
  "FieldsFunc ''/d/f'' is_slash = [''d'', ''f'']"
  "FieldsFunc ''/d'' is_slash = [''d'']"
  "FieldsFunc ''/bin/ls'' is_slash = [''bin'', ''ls'']"
  "FieldsFunc ''/lib/a'' is_slash = [''lib'', ''a'']"
  "FieldsFunc ''/d/g'' is_slash = [''d'', ''g'']"
  "FieldsFunc ''/x/y'' is_slash = [''x'', ''y'']"
  "FieldsFunc [] is_slash = []"
  "FieldsFunc ''/'' is_slash = []"
  "lookupFile example_fs [] ''/h1'' = Some (Inr (''/h1'', None))"
  "lookupFile example_fs [] ''/h2'' = Some (Inr (''/h2'', None))"
  "lookupFile example_fs [] ''/bin/ls'' = Some (Inr (''/bin/ls'', None))"
  "lookupFile example_fs [] ''/lib/a'' = Some (Inr (''/lib/a'', None))"
  by (simp_all add: FieldsFunc_def is_slash_def lookupFile_def example_fs_facts)

lemma example_manifest_built:
  "AddFile example_fs (NewManifest []) ''/d/f'' ''/h1'' = (Return None, example_manifest, [])"
  by (simp add: AddFile_def AddFileTo_def GetChildren_def NewManifest_def example_evals
      addFile_leaf_def example_manifest_def)

text \<open>
  C6. When a file insertion of the pair \<open>(P, H)\<close> has returned without error, the same
  insertion again returns without error, leaves the whole manifest as it is and
  prints nothing.
\<close>

theorem AddFile_idempotent:
  assumes first: "AddFile fs m P H = (Return None, m1, out1)"
  shows "AddFile fs m1 P H = (Return None, m1, [])"
proof -
  let ?parts = "FieldsFunc P is_slash"
  from AddFile_returned [OF first] obtain ch' leaf leaf' where
    parts: "?parts \<noteq> []" and
    ch': "map_of (root m1) ''children'' = Some (VMap ch')" and
    f: "walk_find (butlast ?parts) ch' = Inr (Some leaf')" and
    act: "addFile_leaf fs (targetRoot m) P H (last ?parts) leaf = ((Return None, out1), leaf')" and
    t: "targetRoot m1 = targetRoot m"
    by blast
  from addFile_leaf_success [OF act] obtain found where
    lk: "lookupFile fs (targetRoot m) H = Some (Inr (found, None))" and
    leaf': "leaf' = AList.update (last ?parts) (VString H) leaf"
    by blast
  have at: "map_of leaf' (last ?parts) = Some (VString H)"
    by (simp add: leaf' map_of_update_same)
  have act2: "addFile_leaf fs (targetRoot m1) P H (last ?parts) leaf' = ((Return None, []), leaf')"
    using lk at by (simp add: addFile_leaf_def t update_same)
  from AddFile_existing [OF ch' parts f act2] obtain ch'' where
    r: "AddFile fs m1 P H =
          (Return None, m1\<lparr>root := AList.update ''children'' (VMap ch'') (root m1)\<rparr>, [])" and
    "ch'' = ch'"
    by blast
  then show ?thesis
    by (simp add: update_same [OF ch'])
qed

theorem AddFile_idempotent_witness:
  "AddFile example_fs (NewManifest []) ''/d/f'' ''/h1'' = (Return None, example_manifest, [])
   \<and> AddFile example_fs example_manifest ''/d/f'' ''/h1'' = (Return None, example_manifest, [])"
  using AddFile_idempotent [OF example_manifest_built] example_manifest_built by simp

text \<open>
  C5. When the node at \<open>P\<close> is a file with host path \<open>H1\<close> and the different host
  path \<open>H2\<close> resolves, inserting \<open>(P, H2)\<close> returns without error, prints the one
  overwrite warning, and the node at \<open>P\<close> is then the file with host path \<open>H2\<close>.
\<close>

theorem AddFile_last_write_wins:
  assumes holds: "node_at m P = Some (VString H1)"
    and diff: "H1 \<noteq> H2"
    and lk: "lookupFile fs (targetRoot m) H2 = Some (Inr (found, None))"
  shows "\<exists>m'. AddFile fs m P H2 = (Return None, m', [OverwriteWarning P H1 H2]) \<and>
              node_at m' P = Some (VString H2)"
proof -
  let ?parts = "FieldsFunc P is_slash"
  from node_at_existing [OF holds] obtain ch leaf where
    ch: "map_of (root m) ''children'' = Some (VMap ch)" and
    parts: "?parts \<noteq> []" and
    f: "walk_find (butlast ?parts) ch = Inr (Some leaf)" and
    at: "map_of leaf (last ?parts) = Some (VString H1)"
    by blast
  have act: "addFile_leaf fs (targetRoot m) P H2 (last ?parts) leaf =
               ((Return None, [OverwriteWarning P H1 H2]),
                AList.update (last ?parts) (VString H2) leaf)"
    using lk at diff by (simp add: addFile_leaf_def)
  from AddFile_existing [OF ch parts f act] obtain ch' where
    r: "AddFile fs m P H2 =
          (Return None, m\<lparr>root := AList.update ''children'' (VMap ch') (root m)\<rparr>,
           [OverwriteWarning P H1 H2])" and
    f': "walk_find (butlast ?parts) ch' =
           Inr (Some (AList.update (last ?parts) (VString H2) leaf))"
    by blast
  have "node_at (m\<lparr>root := AList.update ''children'' (VMap ch') (root m)\<rparr>) P
          = Some (VString H2)"
    using parts f' by (simp add: node_at_def map_of_update_same)
  with r show ?thesis by blast
qed

theorem AddFile_last_write_wins_witness:
  "node_at example_manifest ''/d/f'' = Some (VString ''/h1'')
   \<and> lookupFile example_fs (targetRoot example_manifest) ''/h2'' = Some (Inr (''/h2'', None))
   \<and> (\<exists>m'. AddFile example_fs example_manifest ''/d/f'' ''/h2''
                = (Return None, m', [OverwriteWarning ''/d/f'' ''/h1'' ''/h2''])
             \<and> node_at m' ''/d/f'' = Some (VString ''/h2''))"
proof -
  have at: "node_at example_manifest ''/d/f'' = Some (VString ''/h1'')"
    by (simp add: node_at_def example_manifest_def example_evals)
  have lk: "lookupFile example_fs (targetRoot example_manifest) ''/h2'' = Some (Inr (''/h2'', None))"
    by (simp add: example_manifest_def example_evals)
  have diff: "''/h1'' \<noteq> ''/h2''" by simp
  from AddFile_last_write_wins [OF at diff lk] at lk show ?thesis by blast
qed

section \<open>Queries, conflicts and empty paths\<close>


lemma walk_find_empty: "ps \<noteq> [] \<Longrightarrow> walk_find ps [] = Inr None"
  by (cases ps) auto

lemma FileExists_fresh_children:
  assumes "map_of (root m) ''children'' = None"
  shows "fst (FileExists m P) \<noteq> Return True"
proof (cases "butlast (FieldsFunc P is_slash) = []")
  case True
  with assms show ?thesis
    by (simp add: FileExists_def GetChildren_def map_of_update_same Let_def)
next
  case False
  with assms show ?thesis
    by (simp add: FileExists_def GetChildren_def map_of_update_same walk_find_empty Let_def)
qed

lemma FileExists_True_iff:
  "fst (FileExists m P) = Return True \<longleftrightarrow> (\<exists>h. node_at m P = Some (VString h))"
proof
  assume t: "fst (FileExists m P) = Return True"
  with FileExists_fresh_children [of m P] obtain v where v: "map_of (root m) ''children'' = Some v"
    by (cases "map_of (root m) ''children''") auto
  with t show "\<exists>h. node_at m P = Some (VString h)"
    by (auto simp: FileExists_def node_at_def Let_def GetChildren_def
        split: if_splits option.splits val.splits sum.splits)
next
  assume "\<exists>h. node_at m P = Some (VString h)"
  then obtain h where "node_at m P = Some (VString h)" by blast
  from node_at_existing [OF this] obtain ch leaf where
    a: "map_of (root m) ''children'' = Some (VMap ch)"
       "FieldsFunc P is_slash \<noteq> []"
       "walk_find (butlast (FieldsFunc P is_slash)) ch = Inr (Some leaf)"
    and b: "map_of leaf (last (FieldsFunc P is_slash)) = Some (VString h)"
    by blast
  show "fst (FileExists m P) = Return True"
    by (simp add: FileExists_existing [OF a] b)
qed

lemma FileExists_absent:
  assumes parts: "FieldsFunc P is_slash \<noteq> []"
    and maps: "walk_in_maps m P"
    and absent: "node_at m P = None"
  shows "fst (FileExists m P) = Return False"
proof (cases "map_of (root m) ''children''")
  case None
  show ?thesis
  proof (cases "butlast (FieldsFunc P is_slash) = []")
    case True
    with None parts show ?thesis
      by (simp add: FileExists_def GetChildren_def map_of_update_same Let_def)
  next
    case False
    with None parts show ?thesis
      by (simp add: FileExists_def GetChildren_def map_of_update_same walk_find_empty Let_def)
  qed
next
  case (Some v)
  with maps obtain ch where ch: "map_of (root m) ''children'' = Some (VMap ch)"
    by (cases v) (simp_all add: walk_in_maps_def)
  from maps ch obtain r where r: "walk_find (butlast (FieldsFunc P is_slash)) ch = Inr r"
    by (auto simp: walk_in_maps_def split: sum.splits)
  show ?thesis
  proof (cases r)
    case None
    with r parts show ?thesis
      by (simp add: FileExists_def GetChildren_existing [OF ch] Let_def)
  next
    case (Some leaf)
    with r have f: "walk_find (butlast (FieldsFunc P is_slash)) ch = Inr (Some leaf)" by simp
    from absent node_at_intro [OF ch parts f]
    have "map_of leaf (last (FieldsFunc P is_slash)) = None" by simp
    then show ?thesis
      by (simp add: FileExists_existing [OF ch parts f])
  qed
qed

text \<open>
  C1, amended. After a file insertion at \<open>P\<close> that returned without error,
  \<open>FileExists P\<close> is true. After a link insertion at \<open>P\<close> that returned without
  error it is false: \<open>FileExists\<close> answers true exactly when the node at \<open>P\<close> is a
  file (a string), so it is false for a directory and for a link. It is false for every
  path with a segment at which the manifest has no node (a path never inserted),
  whenever the walk does not run through a node that is not a map; in particular for
  every path with a segment on a manifest in which nothing was inserted.
\<close>

theorem FileExists_after_insert:
  "(AddFile fs m P H = (Return None, m', out) \<longrightarrow> FileExists m' P = (Return True, m'))
   \<and> (AddLink fs m P H = (Return None, m', out) \<longrightarrow> FileExists m' P = (Return False, m'))
   \<and> (fst (FileExists m P) = Return True \<longleftrightarrow> (\<exists>h. node_at m P = Some (VString h)))
   \<and> (node_at m P = Some v \<and> \<not> kind_String v \<longrightarrow> FileExists m P = (Return False, m))
   \<and> (FieldsFunc P is_slash \<noteq> [] \<and> walk_in_maps m P \<and> node_at m P = None \<longrightarrow>
        fst (FileExists m P) = Return False)
   \<and> (FieldsFunc P is_slash \<noteq> [] \<longrightarrow> fst (FileExists (NewManifest t) P) = Return False)"
proof (intro conjI impI)
  assume a: "AddFile fs m P H = (Return None, m', out)"
  from AddFile_returned [OF a] obtain ch' leaf leaf' where
    e: "map_of (root m') ''children'' = Some (VMap ch')"
       "FieldsFunc P is_slash \<noteq> []"
       "walk_find (butlast (FieldsFunc P is_slash)) ch' = Inr (Some leaf')"
    and act: "addFile_leaf fs (targetRoot m) P H (last (FieldsFunc P is_slash)) leaf
                = ((Return None, out), leaf')"
    by blast
  from addFile_leaf_success [OF act]
  have "map_of leaf' (last (FieldsFunc P is_slash)) = Some (VString H)"
    by (simp add: map_of_update_same)
  then show "FileExists m' P = (Return True, m')"
    by (simp add: FileExists_existing [OF e])
next
  assume a: "AddLink fs m P H = (Return None, m', out)"
  from AddLink_returned [OF a] obtain ch' leaf leaf' where
    e: "map_of (root m') ''children'' = Some (VMap ch')"
       "FieldsFunc P is_slash \<noteq> []"
       "walk_find (butlast (FieldsFunc P is_slash)) ch' = Inr (Some leaf')"
    and act: "addLink_leaf fs (targetRoot m) P H (last (FieldsFunc P is_slash)) leaf
                = ((Return None, out), leaf')"
    by blast
  from addLink_leaf_success [OF act] obtain s where
    "map_of leaf' (last (FieldsFunc P is_slash)) = Some (VLink s)"
    by (auto simp: map_of_update_same)
  then show "FileExists m' P = (Return False, m')"
    by (simp add: FileExists_existing [OF e])
next
  show "fst (FileExists m P) = Return True \<longleftrightarrow> (\<exists>h. node_at m P = Some (VString h))"
    by (rule FileExists_True_iff)
next
  assume "node_at m P = Some v \<and> \<not> kind_String v"
  then have n: "node_at m P = Some v" and k: "\<not> kind_String v" by simp_all
  from node_at_existing [OF n] obtain ch leaf where
    e: "map_of (root m) ''children'' = Some (VMap ch)"
       "FieldsFunc P is_slash \<noteq> []"
       "walk_find (butlast (FieldsFunc P is_slash)) ch = Inr (Some leaf)"
    and b: "map_of leaf (last (FieldsFunc P is_slash)) = Some v"
    by blast
  from k show "FileExists m P = (Return False, m)"
    by (cases v) (simp_all add: FileExists_existing [OF e] b)
next
  assume "FieldsFunc P is_slash \<noteq> [] \<and> walk_in_maps m P \<and> node_at m P = None"
  then show "fst (FileExists m P) = Return False"
    by (simp add: FileExists_absent)
next
  assume p: "FieldsFunc P is_slash \<noteq> []"
  show "fst (FileExists (NewManifest t) P) = Return False"
  proof (cases "butlast (FieldsFunc P is_slash) = []")
    case True
    with p show ?thesis
      by (simp add: FileExists_def NewManifest_def GetChildren_def)
  next
    case False
    with p show ?thesis
      by (simp add: FileExists_def NewManifest_def GetChildren_def walk_find_empty)
  qed
qed


lemma example_link_built:
  "AddLink example_fs (NewManifest []) ''/lib/a'' ''/lib/a''
     = (Return None, example_link_manifest, [])"
  by (simp add: AddLink_def GetChildren_def NewManifest_def example_evals
      addLink_leaf_def example_link_manifest_def example_fs_facts)

text \<open>
  C1 as stated fails for links: the link insertion at \<open>/lib/a\<close> succeeds and
  \<open>FileExists\<close> is false there.
\<close>

theorem FileExists_after_link_counterexample:
  "AddLink example_fs (NewManifest []) ''/lib/a'' ''/lib/a''
     = (Return None, example_link_manifest, [])
   \<and> FileExists example_link_manifest ''/lib/a'' = (Return False, example_link_manifest)"
  by (simp add: example_link_built FileExists_def GetChildren_def example_link_manifest_def
      example_evals)

theorem FileExists_after_insert_witness:
  "AddFile example_fs (NewManifest []) ''/d/f'' ''/h1'' = (Return None, example_manifest, [])
   \<and> FileExists example_manifest ''/d/f'' = (Return True, example_manifest)
   \<and> AddLink example_fs (NewManifest []) ''/lib/a'' ''/lib/a''
       = (Return None, example_link_manifest, [])
   \<and> FileExists example_link_manifest ''/lib/a'' = (Return False, example_link_manifest)
   \<and> node_at example_manifest ''/d'' = Some (VMap [(''f'', VString ''/h1'')])
   \<and> FileExists example_manifest ''/d'' = (Return False, example_manifest)
   \<and> walk_in_maps example_manifest ''/d/g'' \<and> node_at example_manifest ''/d/g'' = None
   \<and> fst (FileExists example_manifest ''/d/g'') = Return False
   \<and> walk_in_maps example_manifest ''/x/y'' \<and> node_at example_manifest ''/x/y'' = None
   \<and> fst (FileExists example_manifest ''/x/y'') = Return False
   \<and> fst (FileExists (NewManifest []) ''/d/f'') = Return False"
proof -
  have never: "walk_in_maps example_manifest ''/d/g''" "node_at example_manifest ''/d/g'' = None"
    "walk_in_maps example_manifest ''/x/y''" "node_at example_manifest ''/x/y'' = None"
    by (simp_all add: walk_in_maps_def node_at_def example_manifest_def example_evals)
  have e: "fst (FileExists example_manifest ''/d/g'') = Return False"
    using FileExists_after_insert [where m = example_manifest and P = "''/d/g''"] never
    by (simp add: example_evals)
  have f: "fst (FileExists example_manifest ''/x/y'') = Return False"
    using FileExists_after_insert [where m = example_manifest and P = "''/x/y''"] never
    by (simp add: example_evals)
  have dir: "node_at example_manifest ''/d'' = Some (VMap [(''f'', VString ''/h1'')])"
    by (simp add: node_at_def example_manifest_def example_evals)
  have a: "FileExists example_manifest ''/d/f'' = (Return True, example_manifest)"
    using FileExists_after_insert
      [where fs = example_fs and m = "NewManifest []" and P = "''/d/f''" and H = "''/h1''"
         and m' = example_manifest and out = "[]"]
      example_manifest_built by blast
  have b: "FileExists example_link_manifest ''/lib/a'' = (Return False, example_link_manifest)"
    using FileExists_after_insert
      [where fs = example_fs and m = "NewManifest []" and P = "''/lib/a''" and H = "''/lib/a''"
         and m' = example_link_manifest and out = "[]"]
      example_link_built by blast
  have c: "FileExists example_manifest ''/d'' = (Return False, example_manifest)"
    using FileExists_after_insert
      [where m = example_manifest and P = "''/d''" and v = "VMap [(''f'', VString ''/h1'')]"]
      dir by simp
  have d: "fst (FileExists (NewManifest []) ''/d/f'') = Return False"
    using FileExists_after_insert [where P = "''/d/f''" and t = "[]"]
    by (simp add: example_evals)
  from a b c d e f never dir example_manifest_built example_link_built show ?thesis by blast
qed

lemma walk_mkdir_conflict:
  "walk_find ps node = Inr (Some leaf) \<Longrightarrow> map_of leaf name = Some (VString h) \<Longrightarrow>
     walk_mkdir hp (ps @ [name]) node =
       ((Return (Some (DirectoryConflictsFile hp)),
         [ConflictMessage (DirectoryConflictsFile hp)]), node)"
proof (induction ps arbitrary: node)
  case Nil
  then show ?case by simp
next
  case (Cons p ps)
  from Cons.prems(1) obtain sub where
    sub: "map_of node p = Some (VMap sub)" and
    f: "walk_find ps sub = Inr (Some leaf)"
    by (auto split: option.splits val.splits)
  from Cons.IH [OF f Cons.prems(2)] sub show ?case
    by (simp add: update_same)
qed

text \<open>
  C2, amended. Where the node at \<open>P\<close> is a directory, a link insertion at \<open>P\<close>
  returns the conflict error to its caller and a file insertion at \<open>P\<close> prints the same
  conflict and ends the process with status 1; where the node at \<open>P\<close> is a file, the
  directory branch of the directory walk returns its conflict error. In all three the
  manifest is left as it was.
\<close>

theorem conflict_handling:
  "(node_at m P = Some (VMap d) \<longrightarrow>
      AddLink fs m P H = (Return (Some (FileOverridesDirectory P)), m,
                          [ConflictMessage (FileOverridesDirectory P)]))
   \<and> (node_at m P = Some (VMap d) \<longrightarrow>
      AddFile fs m P H = (Exit 1, m, [ConflictMessage (FileOverridesDirectory P)]))
   \<and> (node_at m P = Some (VString h) \<longrightarrow>
      addDirectoryEntry m P hp = (Return (Some (DirectoryConflictsFile hp)), m,
                                  [ConflictMessage (DirectoryConflictsFile hp)]))"
proof (intro conjI impI)
  assume n: "node_at m P = Some (VMap d)"
  from node_at_existing [OF n] obtain ch leaf where
    ch: "map_of (root m) ''children'' = Some (VMap ch)" and
    parts: "FieldsFunc P is_slash \<noteq> []" and
    f: "walk_find (butlast (FieldsFunc P is_slash)) ch = Inr (Some leaf)" and
    at: "map_of leaf (last (FieldsFunc P is_slash)) = Some (VMap d)"
    by blast
  have act: "addLink_leaf fs (targetRoot m) P H (last (FieldsFunc P is_slash)) leaf =
               ((Return (Some (FileOverridesDirectory P)),
                 [ConflictMessage (FileOverridesDirectory P)]), leaf)"
    using at by (simp add: addLink_leaf_def)
  from AddLink_existing [OF ch parts f act] show
    "AddLink fs m P H = (Return (Some (FileOverridesDirectory P)), m,
                         [ConflictMessage (FileOverridesDirectory P)])"
    by (auto simp: update_same [OF ch])
next
  assume n: "node_at m P = Some (VMap d)"
  from node_at_existing [OF n] obtain ch leaf where
    ch: "map_of (root m) ''children'' = Some (VMap ch)" and
    parts: "FieldsFunc P is_slash \<noteq> []" and
    f: "walk_find (butlast (FieldsFunc P is_slash)) ch = Inr (Some leaf)" and
    at: "map_of leaf (last (FieldsFunc P is_slash)) = Some (VMap d)"
    by blast
  have act: "addFile_leaf fs (targetRoot m) P H (last (FieldsFunc P is_slash)) leaf =
               ((Exit 1, [ConflictMessage (FileOverridesDirectory P)]), leaf)"
    using at by (simp add: addFile_leaf_def)
  from AddFile_existing [OF ch parts f act] show
    "AddFile fs m P H = (Exit 1, m, [ConflictMessage (FileOverridesDirectory P)])"
    by (auto simp: update_same [OF ch])
next
  assume n: "node_at m P = Some (VString h)"
  from node_at_existing [OF n] obtain ch leaf where
    ch: "map_of (root m) ''children'' = Some (VMap ch)" and
    parts: "FieldsFunc P is_slash \<noteq> []" and
    f: "walk_find (butlast (FieldsFunc P is_slash)) ch = Inr (Some leaf)" and
    at: "map_of leaf (last (FieldsFunc P is_slash)) = Some (VString h)"
    by blast
  from walk_mkdir_conflict [OF f at, of hp] parts
  have "walk_mkdir hp (FieldsFunc P is_slash) ch =
          ((Return (Some (DirectoryConflictsFile hp)),
            [ConflictMessage (DirectoryConflictsFile hp)]), ch)"
    by simp
  then show "addDirectoryEntry m P hp =
               (Return (Some (DirectoryConflictsFile hp)), m,
                [ConflictMessage (DirectoryConflictsFile hp)])"
    by (simp add: addDirectoryEntry_def GetChildren_existing [OF ch] update_same [OF ch])
qed

text \<open>
  C2 as stated fails: a file insertion over the directory \<open>/d\<close> returns no error, it
  ends the process; and \<open>MkDir\<close> over a file panics on its type assertion.
\<close>

theorem conflict_exit_counterexample:
  "AddFile example_fs example_manifest ''/d'' ''/h2''
     = (Exit 1, example_manifest, [ConflictMessage (FileOverridesDirectory ''/d'')])
   \<and> MkDir [(''children'', VMap [(''f'', VString ''/h1'')])] ''f'' = Inl TypeAssertion"
  by (simp add: AddFile_def AddFileTo_def GetChildren_def example_manifest_def example_evals
      addFile_leaf_def MkDir_def)

theorem conflict_handling_witness:
  "node_at example_manifest ''/d'' = Some (VMap [(''f'', VString ''/h1'')])
   \<and> AddLink example_fs example_manifest ''/d'' ''/lib/a''
       = (Return (Some (FileOverridesDirectory ''/d'')), example_manifest,
          [ConflictMessage (FileOverridesDirectory ''/d'')])
   \<and> AddFile example_fs example_manifest ''/d'' ''/h2''
       = (Exit 1, example_manifest, [ConflictMessage (FileOverridesDirectory ''/d'')])
   \<and> node_at example_manifest ''/d/f'' = Some (VString ''/h1'')
   \<and> addDirectoryEntry example_manifest ''/d/f'' ''/src/d/f''
       = (Return (Some (DirectoryConflictsFile ''/src/d/f'')), example_manifest,
          [ConflictMessage (DirectoryConflictsFile ''/src/d/f'')])"
proof -
  have dir: "node_at example_manifest ''/d'' = Some (VMap [(''f'', VString ''/h1'')])"
    by (simp add: node_at_def example_manifest_def example_evals)
  have fil: "node_at example_manifest ''/d/f'' = Some (VString ''/h1'')"
    by (simp add: node_at_def example_manifest_def example_evals)
  have a: "AddLink example_fs example_manifest ''/d'' ''/lib/a''
       = (Return (Some (FileOverridesDirectory ''/d'')), example_manifest,
          [ConflictMessage (FileOverridesDirectory ''/d'')])"
    using conflict_handling [where m = example_manifest and P = "''/d''"
        and d = "[(''f'', VString ''/h1'')]"] dir by blast
  have b: "AddFile example_fs example_manifest ''/d'' ''/h2''
       = (Exit 1, example_manifest, [ConflictMessage (FileOverridesDirectory ''/d'')])"
    using conflict_handling [where m = example_manifest and P = "''/d''"
        and d = "[(''f'', VString ''/h1'')]"] dir by blast
  have c: "addDirectoryEntry example_manifest ''/d/f'' ''/src/d/f''
       = (Return (Some (DirectoryConflictsFile ''/src/d/f'')), example_manifest,
          [ConflictMessage (DirectoryConflictsFile ''/src/d/f'')])"
    using conflict_handling [where m = example_manifest and P = "''/d/f''"
        and h = "''/h1''"] fil by blast
  from dir fil a b c show ?thesis by blast
qed

text \<open>
  C10. On a manifest whose root has no \<open>children\<close> entry or a map there, a virtual path
  with no segment (such as the empty string and \<open>/\<close>) makes \<open>AddFile\<close>, \<open>AddLink\<close>
  and \<open>FileExists\<close> panic with an index out of range.
\<close>

theorem empty_path_panics:
  assumes "children_ok (root m)" and "FieldsFunc P is_slash = []"
  shows "fst (AddFile fs m P H) = Panic IndexOutOfRange
         \<and> fst (AddLink fs m P H) = Panic IndexOutOfRange
         \<and> fst (FileExists m P) = Panic IndexOutOfRange
         \<and> FieldsFunc [] is_slash = [] \<and> FieldsFunc ''/'' is_slash = []"
  using assms
  by (auto simp: AddFile_def AddFileTo_def AddLink_def FileExists_def GetChildren_def
      children_ok_def Let_def map_of_update_same example_evals
      split: option.splits val.splits)

theorem empty_path_panics_witness:
  "children_ok (root (NewManifest []))
   \<and> fst (AddFile example_fs (NewManifest []) [] ''/h1'') = Panic IndexOutOfRange
   \<and> fst (AddLink example_fs (NewManifest []) ''/'' ''/lib/a'') = Panic IndexOutOfRange
   \<and> fst (FileExists (NewManifest []) ''/'') = Panic IndexOutOfRange"
proof -
  have ok: "children_ok (root (NewManifest []))"
    by (simp add: children_ok_def NewManifest_def)
  from empty_path_panics [OF ok, of "[]" example_fs "''/h1''"]
    empty_path_panics [OF ok, of "''/''" example_fs "''/lib/a''"] ok
  show ?thesis by (simp add: example_evals)
qed


section \<open>The filesystem size\<close>

lemma runes_lits:
  "runes ''k'' = [107]" "runes ''m'' = [109]" "runes ''g'' = [103]"
  "runes ''kK'' = [107, 75]" "runes ''mM'' = [109, 77]" "runes ''gG'' = [103, 71]"
  "runes ''10M'' = [49, 48, 77]" "runes ''abc'' = [97, 98, 99]"
  by (simp_all add: runes_def)

lemma sint_fits: "n < 2 ^ 63 \<Longrightarrow> sint (of_nat n :: 64 word) = int n"
proof -
  assume n: "n < 2 ^ 63"
  have "sint (of_nat n :: 64 word) = sint (word_of_int (int n) :: 64 word)"
    by simp
  also have "\<dots> = signed_take_bit 63 (int n)"
    by (simp only: sint_sbintrunc') simp
  also have "\<dots> = int n"
    using n by (simp add: signed_take_bit_int_eq_self)
  finally show ?thesis .
qed

lemma ascii_tables_only: "ascii_tables ascii_only"
  by (simp add: ascii_tables_def ascii_only_def)

lemma digit_is_number: "ascii_tables U \<Longrightarrow> is_digit c \<Longrightarrow> IsNumber U c"
  by (simp add: ascii_tables_def is_digit_def)

lemma digits_are_numbers:
  "ascii_tables U \<Longrightarrow> list_all is_digit ds \<Longrightarrow> list_all (IsNumber U) ds"
  by (induction ds) (auto simp: digit_is_number)

lemma parse_digits_all:
  "list_all is_digit ds \<Longrightarrow>
     parse_digits n ds = Some (foldl (\<lambda>n c. n * 10 + (c - 48)) n ds)"
  by (induction ds arbitrary: n) auto

lemma index_from_none:
  "list_all (IsNumber U) ds \<Longrightarrow> index_from (\<lambda>c. \<not> IsNumber U c) i ds = - 1"
  by (induction ds arbitrary: i) auto

lemma index_from_suffix:
  "list_all (IsNumber U) ds \<Longrightarrow> \<not> IsNumber U c \<Longrightarrow>
     index_from (\<lambda>c. \<not> IsNumber U c) i (ds @ c # rest) = i + int (length ds)"
  by (induction ds arbitrary: i) auto

lemma digits_unsigned:
  assumes "ds \<noteq> []" "list_all is_digit ds"
  shows "hd ds \<noteq> 43 \<and> hd ds \<noteq> 45"
  using assms by (cases ds) (auto simp: is_digit_def)

lemma ParseInt_digits:
  assumes "ds \<noteq> []" "list_all is_digit ds" "decimal_value ds < 2 ^ 63"
  shows "ParseInt ds = (of_nat (decimal_value ds), None)"
  using assms digits_unsigned [OF assms(1,2)]
  by (simp add: ParseInt_def parse_digits_all decimal_value_def)

lemma ParseInt_range:
  assumes "ds \<noteq> []" "list_all is_digit ds" "2 ^ 63 \<le> decimal_value ds"
  shows "ParseInt ds = (2 ^ 63 - 1, Some ErrRange)"
  using assms digits_unsigned [OF assms(1,2)]
  by (simp add: ParseInt_def parse_digits_all decimal_value_def)

lemma SetFileSystemSize_plain:
  assumes "ascii_tables U" "list_all is_digit ds"
  shows "SetFileSystemSize U m ds = parse_and_scale m ds 1"
  using digits_are_numbers [OF assms]
  by (simp add: SetFileSystemSize_def IndexFunc_def index_from_none)

lemma SetFileSystemSize_suffix:
  assumes "ds \<noteq> []" "list_all (IsNumber U) ds" "sfx \<noteq> []" "\<not> IsNumber U (hd sfx)"
  shows "SetFileSystemSize U m (ds @ sfx) =
           (if strings_ToLower U sfx = runes ''k'' then parse_and_scale m ds 1024
            else if strings_ToLower U sfx = runes ''m'' then parse_and_scale m ds (1024 * 1024)
            else if strings_ToLower U sfx = runes ''g'' then
              parse_and_scale m ds (1024 * 1024 * 1024)
            else (Some (InvalidUnits (strings_ToLower U sfx)), m))"
proof -
  from assms(3) obtain c rest where sfx: "sfx = c # rest" by (cases sfx) auto
  with assms(4) have c: "\<not> IsNumber U c" by simp
  have idx: "IndexFunc (ds @ sfx) (\<lambda>c. \<not> IsNumber U c) = int (length ds)"
    using index_from_suffix [OF assms(2) c, of 0 rest] by (simp add: IndexFunc_def sfx)
  from assms(1) have pos: "0 < length ds" by simp
  show ?thesis
    using pos by (simp add: SetFileSystemSize_def idx Let_def)
qed

lemma SetFileSystemSize_bad_prefix:
  assumes "sz \<noteq> []" "\<not> IsNumber U (hd sz)"
  shows "SetFileSystemSize U m sz = (Some (InvalidSize sz), m)"
proof -
  from assms obtain c rest where "sz = c # rest" "\<not> IsNumber U c" by (cases sz) auto
  then show ?thesis
    by (simp add: SetFileSystemSize_def IndexFunc_def)
qed

lemma unit_letter:
  assumes "ascii_tables U"
  shows "u \<in> set (runes ''kK'') \<Longrightarrow> \<not> IsNumber U u \<and> strings_ToLower U [u] = runes ''k''"
    and "u \<in> set (runes ''mM'') \<Longrightarrow> \<not> IsNumber U u \<and> strings_ToLower U [u] = runes ''m''"
    and "u \<in> set (runes ''gG'') \<Longrightarrow> \<not> IsNumber U u \<and> strings_ToLower U [u] = runes ''g''"
  using assms by (auto simp: runes_lits ascii_tables_def strings_ToLower_def)

lemma SetFileSystemSize_unit:
  assumes U: "ascii_tables U"
    and ds: "ds \<noteq> []" "list_all is_digit ds"
    and u: "\<not> IsNumber U u"
    and fits: "decimal_value ds < 2 ^ 63"
  shows "SetFileSystemSize U m (ds @ [u]) =
           (if strings_ToLower U [u] = runes ''k'' then
              (None, m\<lparr>fs_size := of_nat (decimal_value ds * 1024)\<rparr>)
            else if strings_ToLower U [u] = runes ''m'' then
              (None, m\<lparr>fs_size := of_nat (decimal_value ds * (1024 * 1024))\<rparr>)
            else if strings_ToLower U [u] = runes ''g'' then
              (None, m\<lparr>fs_size := of_nat (decimal_value ds * (1024 * 1024 * 1024))\<rparr>)
            else (Some (InvalidUnits (strings_ToLower U [u])), m))"
  using u
  by (simp add: SetFileSystemSize_suffix [OF ds(1) digits_are_numbers [OF U ds(2)]]
      parse_and_scale_def ParseInt_digits [OF ds fits])

text \<open>
  C9, amended. For every table that is as Unicode is on ASCII:
  \<open>SetFileSystemSize "10M"\<close> stores \<open>10 * 1024 * 1024\<close> and returns no error;
  \<open>"abc"\<close>, as every string whose first rune is not a number, fails with the
  invalid-size error; a numeric prefix followed by a suffix that does not lower to
  \<open>k\<close>, \<open>m\<close> or \<open>g\<close> fails with the invalid-units error; decimal digits alone are
  stored as the byte count when the number fits an \<open>int64\<close> and fail with the range
  error of \<open>ParseInt\<close> when it does not; and decimal digits with one of the letters
  \<open>k\<close>, \<open>m\<close>, \<open>g\<close> in either case store the number times \<open>1024\<close>, \<open>1024\<^sup>2\<close> or
  \<open>1024\<^sup>3\<close> when that product fits an \<open>int64\<close>.
\<close>

theorem SetFileSystemSize_parses:
  assumes U: "ascii_tables U"
  shows "SetFileSystemSize U m (runes ''10M'') = (None, m\<lparr>fs_size := 10 * 1024 * 1024\<rparr>)
   \<and> SetFileSystemSize U m (runes ''abc'') = (Some (InvalidSize (runes ''abc'')), m)
   \<and> (sz \<noteq> [] \<and> \<not> IsNumber U (hd sz) \<longrightarrow>
        SetFileSystemSize U m sz = (Some (InvalidSize sz), m))
   \<and> (ds \<noteq> [] \<and> list_all (IsNumber U) ds \<and> sfx \<noteq> [] \<and> \<not> IsNumber U (hd sfx) \<and>
        strings_ToLower U sfx \<notin> set [runes ''k'', runes ''m'', runes ''g''] \<longrightarrow>
        SetFileSystemSize U m (ds @ sfx) = (Some (InvalidUnits (strings_ToLower U sfx)), m))
   \<and> (ns \<noteq> [] \<and> list_all is_digit ns \<longrightarrow>
        (decimal_value ns < 2 ^ 63 \<longrightarrow>
           SetFileSystemSize U m ns = (None, m\<lparr>fs_size := of_nat (decimal_value ns)\<rparr>)
           \<and> sint (of_nat (decimal_value ns) :: 64 word) = int (decimal_value ns))
        \<and> (2 ^ 63 \<le> decimal_value ns \<longrightarrow>
           fst (SetFileSystemSize U m ns) = Some (ParseIntError ErrRange))
        \<and> (u \<in> set (runes ''kK'') \<and> decimal_value ns * 1024 < 2 ^ 63 \<longrightarrow>
           SetFileSystemSize U m (ns @ [u])
             = (None, m\<lparr>fs_size := of_nat (decimal_value ns * 1024)\<rparr>)
           \<and> sint (of_nat (decimal_value ns * 1024) :: 64 word)
               = int (decimal_value ns * 1024))
        \<and> (u \<in> set (runes ''mM'') \<and> decimal_value ns * (1024 * 1024) < 2 ^ 63 \<longrightarrow>
           SetFileSystemSize U m (ns @ [u])
             = (None, m\<lparr>fs_size := of_nat (decimal_value ns * (1024 * 1024))\<rparr>)
           \<and> sint (of_nat (decimal_value ns * (1024 * 1024)) :: 64 word)
               = int (decimal_value ns * (1024 * 1024)))
        \<and> (u \<in> set (runes ''gG'') \<and> decimal_value ns * (1024 * 1024 * 1024) < 2 ^ 63 \<longrightarrow>
           SetFileSystemSize U m (ns @ [u])
             = (None, m\<lparr>fs_size := of_nat (decimal_value ns * (1024 * 1024 * 1024))\<rparr>)
           \<and> sint (of_nat (decimal_value ns * (1024 * 1024 * 1024)) :: 64 word)
               = int (decimal_value ns * (1024 * 1024 * 1024))))"
proof (intro conjI impI)
  have d: "decimal_value [49, 48] = 10" by (simp add: decimal_value_def)
  have dg: "[49, 48] \<noteq> ([] :: rune list)" "list_all is_digit [49, 48]"
    by (simp_all add: is_digit_def)
  have fits: "decimal_value [49, 48] < 2 ^ 63" by (simp add: d)
  have M: "\<not> IsNumber U 77" "strings_ToLower U [77] = runes ''m''"
    using unit_letter(2) [OF U, of 77] by (simp_all add: runes_lits)
  have ne: "runes ''m'' \<noteq> runes ''k''" by (simp add: runes_lits)
  have "SetFileSystemSize U m ([49, 48] @ [77])
          = (None, m\<lparr>fs_size := of_nat (decimal_value [49, 48] * (1024 * 1024))\<rparr>)"
    by (subst SetFileSystemSize_unit [OF U dg M(1) fits]) (simp add: M(2) ne)
  then show "SetFileSystemSize U m (runes ''10M'') = (None, m\<lparr>fs_size := 10 * 1024 * 1024\<rparr>)"
    by (simp add: d runes_lits)
next
  have "\<not> IsNumber U 97" using U by (simp add: ascii_tables_def)
  then show "SetFileSystemSize U m (runes ''abc'') = (Some (InvalidSize (runes ''abc'')), m)"
    by (simp add: runes_lits SetFileSystemSize_bad_prefix)
next
  assume "sz \<noteq> [] \<and> \<not> IsNumber U (hd sz)"
  then show "SetFileSystemSize U m sz = (Some (InvalidSize sz), m)"
    by (simp add: SetFileSystemSize_bad_prefix)
next
  assume "ds \<noteq> [] \<and> list_all (IsNumber U) ds \<and> sfx \<noteq> [] \<and> \<not> IsNumber U (hd sfx) \<and>
        strings_ToLower U sfx \<notin> set [runes ''k'', runes ''m'', runes ''g'']"
  then show "SetFileSystemSize U m (ds @ sfx) = (Some (InvalidUnits (strings_ToLower U sfx)), m)"
    by (simp add: SetFileSystemSize_suffix)
next
  assume a: "ns \<noteq> [] \<and> list_all is_digit ns" and fits: "decimal_value ns < 2 ^ 63"
  then show "SetFileSystemSize U m ns = (None, m\<lparr>fs_size := of_nat (decimal_value ns)\<rparr>)"
    by (simp add: SetFileSystemSize_plain [OF U] parse_and_scale_def ParseInt_digits)
  from fits show "sint (of_nat (decimal_value ns) :: 64 word) = int (decimal_value ns)"
    by (rule sint_fits)
next
  assume a: "ns \<noteq> [] \<and> list_all is_digit ns" and big: "2 ^ 63 \<le> decimal_value ns"
  then show "fst (SetFileSystemSize U m ns) = Some (ParseIntError ErrRange)"
    by (simp add: SetFileSystemSize_plain [OF U] parse_and_scale_def ParseInt_range)
next
  assume a: "ns \<noteq> [] \<and> list_all is_digit ns"
    and b: "u \<in> set (runes ''kK'') \<and> decimal_value ns * 1024 < 2 ^ 63"
  from a have ds: "ns \<noteq> []" "list_all is_digit ns" by simp_all
  from b have u: "u \<in> set (runes ''kK'')" and p: "decimal_value ns * 1024 < 2 ^ 63"
    by simp_all
  from p have fits: "decimal_value ns < 2 ^ 63" by simp
  from unit_letter(1) [OF U u] have k: "\<not> IsNumber U u" "strings_ToLower U [u] = runes ''k''"
    by simp_all
  show "SetFileSystemSize U m (ns @ [u])
          = (None, m\<lparr>fs_size := of_nat (decimal_value ns * 1024)\<rparr>)"
    by (simp add: SetFileSystemSize_unit [OF U ds k(1) fits] k(2))
  from p show "sint (of_nat (decimal_value ns * 1024) :: 64 word)
                 = int (decimal_value ns * 1024)"
    by (rule sint_fits)
next
  assume a: "ns \<noteq> [] \<and> list_all is_digit ns"
    and b: "u \<in> set (runes ''mM'') \<and> decimal_value ns * (1024 * 1024) < 2 ^ 63"
  from a have ds: "ns \<noteq> []" "list_all is_digit ns" by simp_all
  from b have u: "u \<in> set (runes ''mM'')"
    and p: "decimal_value ns * (1024 * 1024) < 2 ^ 63"
    by simp_all
  from p have fits: "decimal_value ns < 2 ^ 63" by simp
  from unit_letter(2) [OF U u] have k: "\<not> IsNumber U u" "strings_ToLower U [u] = runes ''m''"
    by simp_all
  have ne: "runes ''m'' \<noteq> runes ''k''" by (simp add: runes_lits)
  show "SetFileSystemSize U m (ns @ [u])
          = (None, m\<lparr>fs_size := of_nat (decimal_value ns * (1024 * 1024))\<rparr>)"
    by (simp add: SetFileSystemSize_unit [OF U ds k(1) fits] k(2) ne)
  from p show "sint (of_nat (decimal_value ns * (1024 * 1024)) :: 64 word)
                 = int (decimal_value ns * (1024 * 1024))"
    by (rule sint_fits)
next
  assume a: "ns \<noteq> [] \<and> list_all is_digit ns"
    and b: "u \<in> set (runes ''gG'') \<and> decimal_value ns * (1024 * 1024 * 1024) < 2 ^ 63"
  from a have ds: "ns \<noteq> []" "list_all is_digit ns" by simp_all
  from b have u: "u \<in> set (runes ''gG'')"
    and p: "decimal_value ns * (1024 * 1024 * 1024) < 2 ^ 63"
    by simp_all
  from p have fits: "decimal_value ns < 2 ^ 63" by simp
  from unit_letter(3) [OF U u] have k: "\<not> IsNumber U u" "strings_ToLower U [u] = runes ''g''"
    by simp_all
  have ne: "runes ''g'' \<noteq> runes ''k''" "runes ''g'' \<noteq> runes ''m''"
    by (simp_all add: runes_lits)
  show "SetFileSystemSize U m (ns @ [u])
          = (None, m\<lparr>fs_size := of_nat (decimal_value ns * (1024 * 1024 * 1024))\<rparr>)"
    by (simp add: SetFileSystemSize_unit [OF U ds k(1) fits] k(2) ne)
  from p show "sint (of_nat (decimal_value ns * (1024 * 1024 * 1024)) :: 64 word)
                 = int (decimal_value ns * (1024 * 1024 * 1024))"
    by (rule sint_fits)
qed

lemma size_examples:
  "runes ''9223372036854775808''
     = [57, 50, 50, 51, 51, 55, 50, 48, 51, 54, 56, 53, 52, 55, 55, 53, 56, 48, 56]"
  "runes ''9223372036854775807''
     = [57, 50, 50, 51, 51, 55, 50, 48, 51, 54, 56, 53, 52, 55, 55, 53, 56, 48, 55]"
  "runes ''512'' = [53, 49, 50]" "runes ''10'' = [49, 48]"
  "runes ''x10'' = [120, 49, 48]" "runes ''kb'' = [107, 98]" "runes ''x'' = [120]"
  by (simp_all add: runes_def)

lemma size_example_values:
  "decimal_value (runes ''9223372036854775808'') = 9223372036854775808"
  "decimal_value (runes ''9223372036854775807'') = 9223372036854775807"
  "decimal_value (runes ''512'') = 512" "decimal_value (runes ''10'') = 10"
  "list_all is_digit (runes ''9223372036854775808'')"
  "list_all is_digit (runes ''9223372036854775807'')"
  "list_all is_digit (runes ''512'')" "list_all is_digit (runes ''10'')"
  by (simp_all add: size_examples decimal_value_def is_digit_def)

lemma size_example_splits:
  "runes ''9223372036854775807k'' = runes ''9223372036854775807'' @ runes ''k''"
  "runes ''10x'' = runes ''10'' @ runes ''x''"
  "runes ''10kb'' = runes ''10'' @ runes ''kb''"
  "runes ''512K'' = runes ''512'' @ [75]"
  "runes ''512m'' = runes ''512'' @ [109]"
  "runes ''512G'' = runes ''512'' @ [71]"
  by (simp_all add: runes_def)

text \<open>
  C9 as stated fails: the numeric string \<open>9223372036854775808\<close> with no suffix is
  refused with a range error, \<open>9223372036854775807k\<close> returns no error and stores
  \<open>-1024\<close>, not the number times 1024, and the suffix \<open>x\<close> fails with the invalid-units
  error, not the invalid-size one.
\<close>

theorem SetFileSystemSize_overflow_counterexample:
  "SetFileSystemSize ascii_only (NewMkfsCommand (NewManifest [])) (runes ''9223372036854775808'')
     = (Some (ParseIntError ErrRange), (NewMkfsCommand (NewManifest []))\<lparr>fs_size := 2 ^ 63 - 1\<rparr>)
   \<and> SetFileSystemSize ascii_only (NewMkfsCommand (NewManifest []))
       (runes ''9223372036854775807k'')
     = (None, (NewMkfsCommand (NewManifest []))\<lparr>fs_size := - 1024\<rparr>)
   \<and> sint (- 1024 :: 64 word) = - 1024
   \<and> SetFileSystemSize ascii_only (NewMkfsCommand (NewManifest [])) (runes ''10x'')
     = (Some (InvalidUnits (runes ''x'')), NewMkfsCommand (NewManifest []))"
proof -
  let ?m = "NewMkfsCommand (NewManifest [])"
  have ne: "runes ''9223372036854775808'' \<noteq> []" "runes ''9223372036854775807'' \<noteq> []"
    "runes ''10'' \<noteq> []"
    by (simp_all add: size_examples)
  have a: "SetFileSystemSize ascii_only ?m (runes ''9223372036854775808'')
     = (Some (ParseIntError ErrRange), ?m\<lparr>fs_size := 2 ^ 63 - 1\<rparr>)"
    by (simp add: SetFileSystemSize_plain [OF ascii_tables_only size_example_values(5)]
        parse_and_scale_def ParseInt_range [OF ne(1) size_example_values(5)]
        size_example_values(1))
  have k: "\<not> IsNumber ascii_only 107" "strings_ToLower ascii_only [107] = runes ''k''"
    "\<not> IsNumber ascii_only 120" "strings_ToLower ascii_only [120] = [120]"
    by (simp_all add: ascii_only_def strings_ToLower_def runes_lits)
  have b: "SetFileSystemSize ascii_only ?m (runes ''9223372036854775807k'')
     = (None, ?m\<lparr>fs_size := - 1024\<rparr>)"
    using k
    by (simp add: size_example_splits(1) runes_lits(1) SetFileSystemSize_suffix
        [OF ne(2) digits_are_numbers [OF ascii_tables_only size_example_values(6)]]
        parse_and_scale_def ParseInt_digits [OF ne(2) size_example_values(6)]
        size_example_values(2))
  have c: "SetFileSystemSize ascii_only ?m (runes ''10x'')
     = (Some (InvalidUnits (runes ''x'')), ?m)"
    using k
    by (simp add: size_example_splits(2) size_examples(7) runes_lits(1-3) SetFileSystemSize_suffix
        [OF ne(3) digits_are_numbers [OF ascii_tables_only size_example_values(8)]])
  have s: "sint (- 1024 :: 64 word) = - 1024" by simp
  from a b c s show ?thesis by blast
qed

theorem SetFileSystemSize_parses_witness:
  "ascii_tables ascii_only
   \<and> SetFileSystemSize ascii_only (NewMkfsCommand (NewManifest [])) (runes ''x10'')
     = (Some (InvalidSize (runes ''x10'')), NewMkfsCommand (NewManifest []))
   \<and> SetFileSystemSize ascii_only (NewMkfsCommand (NewManifest [])) (runes ''10kb'')
     = (Some (InvalidUnits (runes ''kb'')), NewMkfsCommand (NewManifest []))
   \<and> SetFileSystemSize ascii_only (NewMkfsCommand (NewManifest [])) (runes ''512'')
     = (None, (NewMkfsCommand (NewManifest []))\<lparr>fs_size := 512\<rparr>)
   \<and> fst (SetFileSystemSize ascii_only (NewMkfsCommand (NewManifest []))
            (runes ''9223372036854775808'')) = Some (ParseIntError ErrRange)
   \<and> SetFileSystemSize ascii_only (NewMkfsCommand (NewManifest [])) (runes ''512K'')
     = (None, (NewMkfsCommand (NewManifest []))\<lparr>fs_size := 524288\<rparr>)
   \<and> SetFileSystemSize ascii_only (NewMkfsCommand (NewManifest [])) (runes ''512m'')
     = (None, (NewMkfsCommand (NewManifest []))\<lparr>fs_size := 536870912\<rparr>)
   \<and> SetFileSystemSize ascii_only (NewMkfsCommand (NewManifest [])) (runes ''512G'')
     = (None, (NewMkfsCommand (NewManifest []))\<lparr>fs_size := 549755813888\<rparr>)"
proof -
  let ?m = "NewMkfsCommand (NewManifest [])"
  note T = SetFileSystemSize_parses [OF ascii_tables_only, where m = ?m]
  have n: "\<not> IsNumber ascii_only (hd (runes ''x10''))" "runes ''x10'' \<noteq> []"
    "\<not> IsNumber ascii_only (hd (runes ''kb''))" "runes ''kb'' \<noteq> []"
    "list_all (IsNumber ascii_only) (runes ''10'')" "runes ''10'' \<noteq> []"
    "runes ''512'' \<noteq> []" "runes ''9223372036854775808'' \<noteq> []"
    by (simp_all add: size_examples ascii_only_def)
  have l: "strings_ToLower ascii_only (runes ''kb'') = runes ''kb''"
    by (simp add: strings_ToLower_def size_examples ascii_only_def)
  have nk: "runes ''kb'' \<notin> set [runes ''k'', runes ''m'', runes ''g'']"
    by (simp add: size_examples runes_lits)
  have p: "SetFileSystemSize ascii_only ?m (runes ''x10'') = (Some (InvalidSize (runes ''x10'')), ?m)"
    using T [where sz = "runes ''x10''"] n by blast
  have s: "SetFileSystemSize ascii_only ?m (runes ''10kb'')
             = (Some (InvalidUnits (runes ''kb'')), ?m)"
    using T [where ds = "runes ''10''" and sfx = "runes ''kb''"] n l nk
    by (simp add: size_example_splits)
  have b: "SetFileSystemSize ascii_only ?m (runes ''512'') = (None, ?m\<lparr>fs_size := 512\<rparr>)"
    using T [where ns = "runes ''512''"] n size_example_values by simp
  have r: "fst (SetFileSystemSize ascii_only ?m (runes ''9223372036854775808''))
             = Some (ParseIntError ErrRange)"
    using T [where ns = "runes ''9223372036854775808''"] n size_example_values by simp
  have k: "SetFileSystemSize ascii_only ?m (runes ''512K'')
             = (None, ?m\<lparr>fs_size := 524288\<rparr>)"
    using T [where ns = "runes ''512''" and u = 75] n size_example_values
    by (simp add: runes_lits size_example_splits)
  have m: "SetFileSystemSize ascii_only ?m (runes ''512m'')
             = (None, ?m\<lparr>fs_size := 536870912\<rparr>)"
    using T [where ns = "runes ''512''" and u = 109] n size_example_values
    by (simp add: runes_lits size_example_splits)
  have g: "SetFileSystemSize ascii_only ?m (runes ''512G'')
             = (None, ?m\<lparr>fs_size := 549755813888\<rparr>)"
    using T [where ns = "runes ''512''" and u = 71] n size_example_values
    by (simp add: runes_lits size_example_splits)
  from ascii_tables_only p s b r k m g show ?thesis by blast
qed

section \<open>Arguments and notrace\<close>

lemma AddArguments_append:
  "map_of (root m) ''arguments'' = Some (VStrings xs) \<Longrightarrow>
     fst (AddArguments m vs) = Return () \<and>
     map_of (root (snd (AddArguments m vs))) ''arguments'' = Some (VStrings (xs @ vs))"
proof (induction vs arbitrary: m xs)
  case Nil
  then show ?case by simp
next
  case (Cons v vs)
  let ?m1 = "m\<lparr>root := AList.update ''arguments'' (VStrings (xs @ [v])) (root m)\<rparr>"
  from Cons.prems have step: "AddArgument m v = (Return (), ?m1)"
    by (simp add: AddArgument_def)
  have "map_of (root ?m1) ''arguments'' = Some (VStrings (xs @ [v]))"
    by (simp add: map_of_update_same)
  from Cons.IH [OF this] step show ?case by simp
qed

lemma AddNoTraces_append:
  "map_of (root m) ''notrace'' = Some (VStrings xs) \<Longrightarrow>
     fst (AddNoTraces m vs) = Return () \<and>
     map_of (root (snd (AddNoTraces m vs))) ''notrace'' = Some (VStrings (xs @ vs))"
proof (induction vs arbitrary: m xs)
  case Nil
  then show ?case by simp
next
  case (Cons v vs)
  let ?m1 = "m\<lparr>root := AList.update ''notrace'' (VStrings (xs @ [v])) (root m)\<rparr>"
  from Cons.prems have step: "AddNoTrace m v = (Return (), ?m1)"
    by (simp add: AddNoTrace_def)
  have "map_of (root ?m1) ''notrace'' = Some (VStrings (xs @ [v]))"
    by (simp add: map_of_update_same)
  from Cons.IH [OF this] step show ?case by simp
qed

text \<open>
  C8. The code does not store exactly the arguments given: on a fresh manifest the
  calls \<open>AddArgument v, AddArgument v\<^sub>1, ...\<close> all return, and the stored sequence
  is the empty string followed by \<open>v, v\<^sub>1, ...\<close> in call order; the same for
  \<open>AddNoTrace\<close>. After the one call \<open>AddArgument "first"\<close> the sequence is
  \<open>["", "first"]\<close>.
\<close>

theorem AddArgument_leading_empty_string:
  "fst (AddArguments (NewManifest t) (v # vs)) = Return ()
   \<and> map_of (root (snd (AddArguments (NewManifest t) (v # vs)))) ''arguments''
       = Some (VStrings ([] # v # vs))
   \<and> fst (AddNoTraces (NewManifest t) (v # vs)) = Return ()
   \<and> map_of (root (snd (AddNoTraces (NewManifest t) (v # vs)))) ''notrace''
       = Some (VStrings ([] # v # vs))
   \<and> snd (AddArgument (NewManifest []) ''first'')
       = \<lparr> root = [(''arguments'', VStrings [[], ''first''])], boot = [], targetRoot = [] \<rparr>"
proof -
  let ?a = "\<lparr> root = [(''arguments'', VStrings [[], v])], boot = [], targetRoot = t \<rparr>"
  let ?n = "\<lparr> root = [(''notrace'', VStrings [[], v])], boot = [], targetRoot = t \<rparr>"
  have a1: "AddArgument (NewManifest t) v = (Return (), ?a)"
    by (simp add: AddArgument_def NewManifest_def)
  have n1: "AddNoTrace (NewManifest t) v = (Return (), ?n)"
    by (simp add: AddNoTrace_def NewManifest_def)
  have a2: "map_of (root ?a) ''arguments'' = Some (VStrings [[], v])" by simp
  have n2: "map_of (root ?n) ''notrace'' = Some (VStrings [[], v])" by simp
  have f: "snd (AddArgument (NewManifest []) ''first'')
       = \<lparr> root = [(''arguments'', VStrings [[], ''first''])], boot = [], targetRoot = [] \<rparr>"
    by (simp add: AddArgument_def NewManifest_def)
  from AddArguments_append [OF a2, of vs] AddNoTraces_append [OF n2, of vs] a1 n1 f
  show ?thesis by simp
qed

section \<open>The user program\<close>

lemma strings_Split_nonempty: "strings_Split s \<noteq> []"
  by (induction s) (auto split: list.splits)



















end
